theory Spec2Isabelle
  imports Main "HOL-Library.Multiset" "HOL-Library.Code_Target_Nat"
begin

section \<open>JavaScript values, errors, strings\<close>

text \<open>
  The scalars that travel through the builders: request values are strings, integers
  and booleans; \<open>null\<close> may occur in an update payload.
\<close>

datatype js_value = JStr string | JNum int | JBool bool | JNull

text \<open>
  The error classes of \<^verbatim>\<open>expressError\<close> that the models throw, with their message.
  \<open>StoreError\<close> stands for whatever \<^verbatim>\<open>db.query\<close> itself throws.
\<close>

datatype error = BadRequestError string | NotFoundError string | StoreError string

text \<open>The decimal text of a non-negative integer, as a template literal renders it.\<close>

definition digit_char :: "nat \<Rightarrow> char" where
  "digit_char d = ''0123456789'' ! d"

fun string_of_nat :: "nat \<Rightarrow> string" where
  "string_of_nat n =
     (if n < 10 then [digit_char n] else string_of_nat (n div 10) @ [digit_char (n mod 10)])"

declare string_of_nat.simps [simp del]

text \<open>Reading decimal text back: a non-empty run of digits is a number.\<close>

definition digit_of_char :: "char \<Rightarrow> nat option" where
  "digit_of_char c = (if c \<in> set ''0123456789'' then Some (of_char c - 48) else None)"

fun parse_digits :: "nat \<Rightarrow> string \<Rightarrow> nat option" where
  "parse_digits acc [] = Some acc"
| "parse_digits acc (c # cs) =
     (case digit_of_char c of None \<Rightarrow> None | Some d \<Rightarrow> parse_digits (10 * acc + d) cs)"

definition parse_nat :: "string \<Rightarrow> nat option" where
  "parse_nat s = (if s = [] then None else parse_digits 0 s)"

text \<open>\<^verbatim>\<open>Array.prototype.join\<close> on an array of strings.\<close>

fun join :: "string \<Rightarrow> string list \<Rightarrow> string" where
  "join sep [] = []"
| "join sep [x] = x"
| "join sep (x # y # ys) = x @ sep @ join sep (y # ys)"

section \<open>Objects: property order and property lookup\<close>

text \<open>
  An object is the list of its own enumerable string-keyed properties in the order of
  their insertion (the keys are distinct). \<^verbatim>\<open>Object.keys\<close> and \<^verbatim>\<open>Object.values\<close> do not
  enumerate in that order: the keys that are array indices (the canonical decimal text of
  an integer below \<open>2^32 - 1\<close>) come first, in ascending numeric order, and the other keys
  follow in insertion order.
\<close>

type_synonym js_object = "(string \<times> js_value) list"

definition array_index :: "string \<Rightarrow> nat option" where
  "array_index k =
     (case parse_nat k of
        None \<Rightarrow> None
      | Some n \<Rightarrow> if n < 4294967295 \<and> string_of_nat n = k then Some n else None)"

definition index_of_property :: "string \<times> js_value \<Rightarrow> nat" where
  "index_of_property p = (case array_index (fst p) of None \<Rightarrow> 0 | Some n \<Rightarrow> n)"

definition own_properties :: "js_object \<Rightarrow> js_object" where
  "own_properties obj =
     sort_key index_of_property (filter (\<lambda>p. array_index (fst p) \<noteq> None) obj) @
     filter (\<lambda>p. array_index (fst p) = None) obj"

definition Object_keys :: "js_object \<Rightarrow> string list" where
  "Object_keys obj = map fst (own_properties obj)"

definition Object_values :: "js_object \<Rightarrow> js_value list" where
  "Object_values obj = map snd (own_properties obj)"

text \<open>
  The properties that every object literal inherits from \<^verbatim>\<open>Object.prototype\<close>, each
  with the text that a template literal renders for its value under Node: the source
  text of a built-in function, and \<open>[object Object]\<close> for the prototype object that
  \<^verbatim>\<open>__proto__\<close> returns.
\<close>

definition Object_prototype :: "string \<rightharpoonup> string" where
  "Object_prototype =
     map_of
       [(''constructor'', ''function Object() { [native code] }''),
        (''__defineGetter__'', ''function __defineGetter__() { [native code] }''),
        (''__defineSetter__'', ''function __defineSetter__() { [native code] }''),
        (''hasOwnProperty'', ''function hasOwnProperty() { [native code] }''),
        (''__lookupGetter__'', ''function __lookupGetter__() { [native code] }''),
        (''__lookupSetter__'', ''function __lookupSetter__() { [native code] }''),
        (''isPrototypeOf'', ''function isPrototypeOf() { [native code] }''),
        (''propertyIsEnumerable'', ''function propertyIsEnumerable() { [native code] }''),
        (''toString'', ''function toString() { [native code] }''),
        (''valueOf'', ''function valueOf() { [native code] }''),
        (''__proto__'', ''[object Object]''),
        (''toLocaleString'', ''function toLocaleString() { [native code] }'')]"

text \<open>
  The property read \<^verbatim>\<open>obj[k]\<close> on an object literal whose own entries are strings: the
  own entry when there is one, otherwise what the prototype chain gives, otherwise
  \<open>undefined\<close>.
\<close>

definition js_lookup :: "(string \<rightharpoonup> string) \<Rightarrow> string \<Rightarrow> string option" where
  "js_lookup obj k = (case obj k of Some v \<Rightarrow> Some v | None \<Rightarrow> Object_prototype k)"

section \<open>The partial-update builder (helpers/sql.js)\<close>

text \<open>
  \<^verbatim>\<open>l || r\<close> where \<open>l\<close> is a string or \<open>undefined\<close>: the right operand is taken when
  the left one is falsy, that is \<open>undefined\<close> or the empty string.
\<close>

definition js_or :: "string option \<Rightarrow> string \<Rightarrow> string" where
  "js_or l r = (case l of None \<Rightarrow> r | Some s \<Rightarrow> if s = [] then r else s)"

text \<open>
  The callback of \<^verbatim>\<open>keys.map\<close>: one fragment for the key \<open>colName\<close> at index \<open>idx\<close>,
  \<^verbatim>\<open>`"${jsToSql[colName] || colName}"=$${idx + 1}`\<close>.
\<close>

definition col_fragment :: "(string \<rightharpoonup> string) \<Rightarrow> string \<Rightarrow> nat \<Rightarrow> string" where
  \<open>col_fragment jsToSql colName idx =
     ''"'' @ js_or (js_lookup jsToSql colName) colName @ ''"=$'' @ string_of_nat (idx + 1)\<close>

definition cols :: "string list \<Rightarrow> (string \<rightharpoonup> string) \<Rightarrow> string list" where
  "cols keys jsToSql = map (\<lambda>(colName, idx). col_fragment jsToSql colName idx) (zip keys [0..<length keys])"

record update_clause =
  setCols :: string
  "values" :: "js_value list"

definition sqlForPartialUpdate :: "js_object \<Rightarrow> (string \<rightharpoonup> string) \<Rightarrow> error + update_clause" where
  "sqlForPartialUpdate dataToUpdate jsToSql =
     (let keys = Object_keys dataToUpdate in
      if length keys = 0 then Inl (BadRequestError ''No data'')
      else Inr \<lparr>setCols = join '', '' (cols keys jsToSql),
                values = Object_values dataToUpdate\<rparr>)"

section \<open>Reading placeholders back\<close>

text \<open>
  The placeholder that a single fragment ends in: the text after the last dollar sign
  of the fragment, read as a decimal number. A fragment without a dollar sign, or with
  anything but digits after it, ends in no placeholder.
\<close>

definition after_last_dollar :: "string \<Rightarrow> string" where
  "after_last_dollar frag = rev (takeWhile (\<lambda>c. c \<noteq> CHR ''$'') (rev frag))"

definition placeholder_index :: "string \<Rightarrow> nat option" where
  "placeholder_index frag =
     (if CHR ''$'' \<in> set frag then parse_nat (after_last_dollar frag) else None)"

text \<open>
  The placeholders that occur in a statement text, in the order of their occurrence: a
  dollar sign followed by digits, outside double-quoted identifiers. A double quote
  opens an identifier and the next double quote closes it, whatever stands between them.
  (The statements composed here hold no string literal and no comment.)
\<close>

datatype scan_state = Plain | Ident | Dollar "nat option"

definition plain_next :: "char \<Rightarrow> scan_state" where
  "plain_next c = (if c = CHR 0x22 then Ident else if c = CHR ''$'' then Dollar None else Plain)"

definition emit :: "nat option \<Rightarrow> nat list" where
  "emit acc = (case acc of None \<Rightarrow> [] | Some n \<Rightarrow> [n])"

fun sql_scan :: "scan_state \<Rightarrow> string \<Rightarrow> nat list" where
  "sql_scan Plain [] = []"
| "sql_scan Ident [] = []"
| "sql_scan (Dollar acc) [] = emit acc"
| "sql_scan Plain (c # cs) = sql_scan (plain_next c) cs"
| "sql_scan Ident (c # cs) = (if c = CHR 0x22 then sql_scan Plain cs else sql_scan Ident cs)"
| "sql_scan (Dollar acc) (c # cs) =
     (case digit_of_char c of
        Some d \<Rightarrow> sql_scan (Dollar (Some (10 * (case acc of None \<Rightarrow> 0 | Some a \<Rightarrow> a) + d))) cs
      | None \<Rightarrow> emit acc @ sql_scan (plain_next c) cs)"

definition sql_placeholders :: "string \<Rightarrow> nat list" where
  "sql_placeholders s = sql_scan Plain s"

text \<open>
  The shape of the fragments of the partial-update builder: a double-quoted name, the
  equals sign and a placeholder.
\<close>

definition quoted_assignment :: "string \<times> nat \<Rightarrow> string" where
  "quoted_assignment p = CHR 0x22 # fst p @ CHR 0x22 # CHR ''='' # CHR ''$'' # string_of_nat (snd p)"

section \<open>The database handle\<close>

text \<open>
  \<^verbatim>\<open>db.query(text, values)\<close> either throws or resolves to a result with \<open>rows\<close>. The
  handle records every statement issued, so that "no query is issued" and "after the
  query executes" can be stated; what the store answers is a parameter.
\<close>

type_synonym row = "(string \<times> js_value) list"

record db =
  respond :: "string \<Rightarrow> js_value list \<Rightarrow> error + row list"
  issued :: "(string \<times> js_value list) list"

definition db_query :: "string \<Rightarrow> js_value list \<Rightarrow> db \<Rightarrow> (error + row list) \<times> db" where
  "db_query text vs d = (respond d text vs, d\<lparr>issued := issued d @ [(text, vs)]\<rparr>)"

section \<open>The filter builders (models/company.js, models/job.js)\<close>

text \<open>
  The criteria as the models destructure them. A missing key is \<open>undefined\<close> (\<open>None\<close>);
  a supplied name or title is a string, a supplied bound an integer, a supplied
  \<open>hasEquity\<close> a boolean.
\<close>

record company_query =
  name :: "string option"
  minEmployees :: "int option"
  maxEmployees :: "int option"

record job_query =
  title :: "string option"
  minSalary :: "int option"
  hasEquity :: "bool option"

text \<open>The two arrays that a filter method fills.\<close>

record builder =
  valueArr :: "js_value list"
  middlePartOfQueryArr :: "string list"

text \<open>
  Truthiness of the tests \<^verbatim>\<open>if (name)\<close>, \<^verbatim>\<open>if (minEmployees)\<close>: \<open>undefined\<close>, the empty
  string and \<open>0\<close> are falsy.
\<close>

definition truthy_string :: "string option \<Rightarrow> bool" where
  "truthy_string v = (case v of None \<Rightarrow> False | Some s \<Rightarrow> s \<noteq> [])"

definition truthy_number :: "int option \<Rightarrow> bool" where
  "truthy_number v = (case v of None \<Rightarrow> False | Some n \<Rightarrow> n \<noteq> 0)"

definition truthy_boolean :: "bool option \<Rightarrow> bool" where
  "truthy_boolean v = (case v of None \<Rightarrow> False | Some b \<Rightarrow> b)"

text \<open>
  \<^verbatim>\<open>minEmployees > maxEmployees\<close> on integers; \<open>undefined\<close> converts to NaN, and every
  comparison with NaN is false.
\<close>

definition js_gt :: "int option \<Rightarrow> int option \<Rightarrow> bool" where
  "js_gt a b = (case a of None \<Rightarrow> False | Some x \<Rightarrow> (case b of None \<Rightarrow> False | Some y \<Rightarrow> x > y))"

text \<open>
  The three statements every placeholder-bearing criterion runs:
  \<^verbatim>\<open>valueArr.push(v); indexes.k = valueArr.length; middlePartOfQueryArr.push(`<pred>${indexes.k}`)\<close>.
\<close>

definition push_criterion :: "js_value \<Rightarrow> string \<Rightarrow> builder \<Rightarrow> builder" where
  "push_criterion v pred b =
     (let pushed = valueArr b @ [v];
          idx = length pushed
      in \<lparr>valueArr = pushed,
          middlePartOfQueryArr = middlePartOfQueryArr b @ [pred @ string_of_nat idx]\<rparr>)"

definition company_if_name :: "string option \<Rightarrow> builder \<Rightarrow> builder" where
  "company_if_name nm b =
     (case nm of
        None \<Rightarrow> b
      | Some s \<Rightarrow> if s \<noteq> [] then push_criterion (JStr (''%'' @ s @ ''%'')) ''name ILIKE $'' b else b)"

definition company_if_minEmployees :: "int option \<Rightarrow> builder \<Rightarrow> builder" where
  "company_if_minEmployees m b =
     (case m of
        None \<Rightarrow> b
      | Some n \<Rightarrow> if n \<noteq> 0 then push_criterion (JNum n) ''num_employees >= $'' b else b)"

definition company_if_maxEmployees :: "int option \<Rightarrow> builder \<Rightarrow> builder" where
  "company_if_maxEmployees m b =
     (case m of
        None \<Rightarrow> b
      | Some n \<Rightarrow> if n \<noteq> 0 then push_criterion (JNum n) ''num_employees <= $'' b else b)"

definition Company_build :: "company_query \<Rightarrow> builder" where
  "Company_build query =
     company_if_maxEmployees (maxEmployees query)
       (company_if_minEmployees (minEmployees query)
         (company_if_name (name query) \<lparr>valueArr = [], middlePartOfQueryArr = []\<rparr>))"

abbreviation newline :: string where
  "newline \<equiv> [CHR 0x0A]"

definition company_firstPartOfQuery :: string where
  \<open>company_firstPartOfQuery =
     ''SELECT handle,'' @ newline @
     ''                              name,'' @ newline @
     ''                              description,'' @ newline @
     ''                              num_employees AS "numEmployees",'' @ newline @
     ''                              logo_url AS "logoUrl"'' @ newline @
     ''                            FROM companies WHERE''\<close>

definition company_lastPartOfQuery :: string where
  "company_lastPartOfQuery = ''ORDER BY name''"

text \<open>The template \<^verbatim>\<open>`${firstPartOfQuery} ${middlePartOfQuery} ${lastPartOfQuery}`\<close>.\<close>

definition compose_query :: "string \<Rightarrow> string list \<Rightarrow> string \<Rightarrow> string" where
  "compose_query firstPartOfQuery middleArr lastPartOfQuery =
     firstPartOfQuery @ '' '' @ join '' AND '' middleArr @ '' '' @ lastPartOfQuery"

definition Company_query_text :: "company_query \<Rightarrow> string" where
  "Company_query_text query =
     compose_query company_firstPartOfQuery (middlePartOfQueryArr (Company_build query))
       company_lastPartOfQuery"

text \<open>The policy after the query: an empty result set becomes a not-found error.\<close>

definition rows_or_not_found :: "string \<Rightarrow> (error + row list) \<times> db \<Rightarrow> (error + row list) \<times> db" where
  "rows_or_not_found msg r =
     (case r of
        (Inl e, d) \<Rightarrow> (Inl e, d)
      | (Inr rows, d) \<Rightarrow> if length rows = 0 then (Inl (NotFoundError msg), d) else (Inr rows, d))"

definition Company_filter :: "company_query \<Rightarrow> db \<Rightarrow> (error + row list) \<times> db" where
  "Company_filter query d =
     (if js_gt (minEmployees query) (maxEmployees query)
      then (Inl (BadRequestError
              ''Maximum employees number must be larger than minimum employees number.''), d)
      else rows_or_not_found ''No company found matching your search criteria''
             (db_query (Company_query_text query) (valueArr (Company_build query)) d))"

definition job_if_title :: "string option \<Rightarrow> builder \<Rightarrow> builder" where
  "job_if_title t b =
     (case t of
        None \<Rightarrow> b
      | Some s \<Rightarrow> if s \<noteq> [] then push_criterion (JStr (''%'' @ s @ ''%'')) ''title ILIKE $'' b else b)"

definition job_if_minSalary :: "int option \<Rightarrow> builder \<Rightarrow> builder" where
  "job_if_minSalary m b =
     (case m of
        None \<Rightarrow> b
      | Some n \<Rightarrow> if n \<noteq> 0 then push_criterion (JNum n) ''salary > $'' b else b)"

text \<open>\<^verbatim>\<open>if (hasEquity === true)\<close> pushes a fragment and no value.\<close>

definition job_if_hasEquity :: "bool option \<Rightarrow> builder \<Rightarrow> builder" where
  "job_if_hasEquity h b =
     (if h = Some True
      then b\<lparr>middlePartOfQueryArr := middlePartOfQueryArr b @ [''equity > 0'']\<rparr>
      else b)"

definition Job_build :: "job_query \<Rightarrow> builder" where
  "Job_build query =
     job_if_hasEquity (hasEquity query)
       (job_if_minSalary (minSalary query)
         (job_if_title (title query) \<lparr>valueArr = [], middlePartOfQueryArr = []\<rparr>))"

definition job_firstPartOfQuery :: string where
  \<open>job_firstPartOfQuery =
     ''SELECT id, title, salary, equity, company_handle AS "companyHandle" FROM jobs WHERE''\<close>

definition job_lastPartOfQuery :: string where
  "job_lastPartOfQuery = ''ORDER BY title''"

definition Job_query_text :: "job_query \<Rightarrow> string" where
  "Job_query_text query =
     compose_query job_firstPartOfQuery (middlePartOfQueryArr (Job_build query))
       job_lastPartOfQuery"

definition Job_filter :: "job_query \<Rightarrow> db \<Rightarrow> (error + row list) \<times> db" where
  "Job_filter query d =
     rows_or_not_found ''No jobs found matching your search criteria''
       (db_query (Job_query_text query) (valueArr (Job_build query)) d)"

text \<open>\<^verbatim>\<open>Job.findAll\<close>: one fixed statement without parameters; the rows are returned as they are.\<close>

definition job_findAll_text :: string where
  \<open>job_findAll_text =
     ''SELECT id,'' @ newline @
     ''                  title,'' @ newline @
     ''                  salary,'' @ newline @
     ''                  equity,'' @ newline @
     ''                  company_handle AS "companyHandle"'' @ newline @
     ''           FROM jobs'' @ newline @
     ''           ORDER BY title''\<close>

definition Job_findAll :: "db \<Rightarrow> (error + row list) \<times> db" where
  "Job_findAll d = db_query job_findAll_text [] d"

text \<open>
  The handler of \<^verbatim>\<open>GET /jobs\<close> from the point where the converted and validated query
  is destructured: \<^verbatim>\<open>if (title || minSalary || hasEquity)\<close> filters, otherwise all jobs
  are listed.
\<close>

definition jobs_get :: "job_query \<Rightarrow> db \<Rightarrow> (error + row list) \<times> db" where
  "jobs_get query d =
     (if truthy_string (title query) \<or> truthy_number (minSalary query) \<or>
         truthy_boolean (hasEquity query)
      then Job_filter query d
      else Job_findAll d)"

section \<open>Reading the composed statement\<close>

text \<open>
  A statement is cut into words at blanks and line breaks. Its \<open>WHERE\<close> dangles when the
  word \<open>WHERE\<close> is the last one or is followed at once by \<open>ORDER\<close>: no predicate stands
  between them.
\<close>

fun sql_words_acc :: "string \<Rightarrow> string \<Rightarrow> string list" where
  "sql_words_acc w [] = (if w = [] then [] else [w])"
| "sql_words_acc w (c # cs) =
     (if c = CHR '' '' \<or> c = CHR 0x0A
      then (if w = [] then sql_words_acc [] cs else w # sql_words_acc [] cs)
      else sql_words_acc (w @ [c]) cs)"

definition sql_words :: "string \<Rightarrow> string list" where
  "sql_words s = sql_words_acc [] s"

fun dangling_where :: "string list \<Rightarrow> bool" where
  "dangling_where [] = False"
| "dangling_where [w] = (w = ''WHERE'')"
| "dangling_where (w # v # ws) = ((w = ''WHERE'' \<and> v = ''ORDER'') \<or> dangling_where (v # ws))"

section \<open>Placeholders against the value list\<close>

text \<open>
  A builder state is aligned when the placeholders of its fragments, read in order, are
  \<open>1, 2, ..., length valueArr\<close>: the k-th placeholder stands for the k-th value.
\<close>

definition aligned :: "builder \<Rightarrow> bool" where
  "aligned b =
     (List.map_filter placeholder_index (middlePartOfQueryArr b) =
        [1..<Suc (length (valueArr b))])"

text \<open>
  The value that the store binds to the placeholder of a fragment: the entry of the
  value list at the placeholder's 1-based position, if there is one.
\<close>

definition bound_value :: "builder \<Rightarrow> string \<Rightarrow> js_value option" where
  "bound_value b frag =
     (case placeholder_index frag of
        None \<Rightarrow> None
      | Some k \<Rightarrow> if 0 < k \<and> k \<le> length (valueArr b) then Some (valueArr b ! (k - 1)) else None)"

section \<open>The column translation as the specification words it\<close>

text \<open>
  The specification's reading of the fragment for a key: the physical name is the map's
  entry when the key is present in the map, and the key itself when it is absent.
\<close>

definition spec_physical_name :: "(string \<rightharpoonup> string) \<Rightarrow> string \<Rightarrow> string" where
  "spec_physical_name fieldNameMap k = (case fieldNameMap k of None \<Rightarrow> k | Some physical \<Rightarrow> physical)"

definition spec_fragment :: "(string \<rightharpoonup> string) \<Rightarrow> string \<Rightarrow> nat \<Rightarrow> string" where
  \<open>spec_fragment fieldNameMap k position =
     ''"'' @ spec_physical_name fieldNameMap k @ ''"=$'' @ string_of_nat position\<close>

definition spec_setCols :: "js_object \<Rightarrow> (string \<rightharpoonup> string) \<Rightarrow> string" where
  "spec_setCols payload fieldNameMap =
     join '', '' (map (\<lambda>(k, position). spec_fragment fieldNameMap k position)
                   (zip (map fst payload) [1..<Suc (length payload)]))"

section \<open>Auxiliary facts: decimal text and placeholders\<close>

lemma digit_of_digit_char: "d < 10 \<Longrightarrow> digit_of_char (digit_char d) = Some d"
proof -
  assume "d < 10"
  then have "d \<in> {0,1,2,3,4,5,6,7,8,9}" by auto
  then show ?thesis by (auto simp: digit_char_def digit_of_char_def)
qed

lemma digit_char_not_dollar: "d < 10 \<Longrightarrow> digit_char d \<noteq> CHR ''$''"
proof -
  assume "d < 10"
  then have "d \<in> {0,1,2,3,4,5,6,7,8,9}" by auto
  then show ?thesis by (auto simp: digit_char_def)
qed

lemma parse_digits_snoc:
  "parse_digits acc (xs @ [c]) =
     (case parse_digits acc xs of None \<Rightarrow> None
      | Some a \<Rightarrow> (case digit_of_char c of None \<Rightarrow> None | Some d \<Rightarrow> Some (10 * a + d)))"
  by (induction xs arbitrary: acc) (auto split: option.splits)

lemma parse_digits_string_of_nat: "parse_digits 0 (string_of_nat n) = Some n"
proof (induction n rule: string_of_nat.induct)
  case (1 n)
  show ?case
  proof (cases "n < 10")
    case True
    then show ?thesis
      by (subst string_of_nat.simps) (simp add: digit_of_digit_char)
  next
    case False
    then have "parse_digits 0 (string_of_nat (n div 10)) = Some (n div 10)"
      using "1.IH" by simp
    with False show ?thesis
      by (subst string_of_nat.simps)
         (simp add: parse_digits_snoc digit_of_digit_char)
  qed
qed

lemma string_of_nat_nonempty: "string_of_nat n \<noteq> []"
  by (subst string_of_nat.simps) simp

lemma string_of_nat_no_dollar: "CHR ''$'' \<notin> set (string_of_nat n)"
proof (induction n rule: string_of_nat.induct)
  case (1 n)
  show ?case
  proof (cases "n < 10")
    case True
    then show ?thesis
      using digit_char_not_dollar [of n] by (subst string_of_nat.simps) auto
  next
    case False
    then have "CHR ''$'' \<notin> set (string_of_nat (n div 10))"
      using "1.IH" by simp
    with False show ?thesis
      using digit_char_not_dollar [of "n mod 10"] by (subst string_of_nat.simps) auto
  qed
qed

lemma parse_nat_string_of_nat: "parse_nat (string_of_nat n) = Some n"
  by (simp add: parse_nat_def string_of_nat_nonempty parse_digits_string_of_nat)

lemma after_last_dollar_append:
  assumes "CHR ''$'' \<notin> set ds"
  shows "after_last_dollar (pre @ ''$'' @ ds) = ds"
proof -
  have h: "takeWhile (\<lambda>c. c \<noteq> CHR ''$'') (rev ds) = rev ds"
    using assms by (auto simp: takeWhile_eq_all_conv)
  show ?thesis
    by (simp add: after_last_dollar_def takeWhile_tail h)
qed

lemma placeholder_index_emitted:
  "placeholder_index (pre @ ''$'' @ string_of_nat n) = Some n"
  unfolding placeholder_index_def
  using after_last_dollar_append [OF string_of_nat_no_dollar, of pre n]
  by (simp add: parse_nat_string_of_nat)

lemma placeholder_index_col_fragment:
  "placeholder_index (col_fragment jsToSql colName idx) = Some (Suc idx)"
proof -
  have "col_fragment jsToSql colName idx =
          ([CHR 0x22] @ js_or (js_lookup jsToSql colName) colName @ [CHR 0x22, CHR ''='']) @ ''$'' @ string_of_nat (Suc idx)"
    by (simp add: col_fragment_def)
  then show ?thesis
    by (simp only: placeholder_index_emitted)
qed

lemma string_of_nat_small:
  "string_of_nat (Suc 0) = ''1''"
  "string_of_nat (Suc (Suc 0)) = ''2''"
  "string_of_nat (Suc (Suc (Suc 0))) = ''3''"
  by (subst string_of_nat.simps, simp add: digit_char_def)+

lemma string_of_nat_numeral:
  "string_of_nat 1 = ''1''" "string_of_nat 2 = ''2''" "string_of_nat 3 = ''3''"
  using string_of_nat_small by (simp_all add: numeral_2_eq_2 numeral_3_eq_3)

lemma length_own_properties: "length (own_properties obj) = length obj"
proof -
  have "length (filter (\<lambda>p. array_index (fst p) \<noteq> None) obj) +
        length (filter (\<lambda>p. \<not> array_index (fst p) \<noteq> None) obj) = length obj"
    by (rule sum_length_filter_compl)
  then show ?thesis
    by (simp add: own_properties_def)
qed

lemma length_Object_keys: "length (Object_keys obj) = length obj"
  by (simp add: Object_keys_def length_own_properties)

lemma Object_keys_Nil_iff: "Object_keys obj = [] \<longleftrightarrow> obj = []"
  using length_Object_keys [of obj] by (metis length_0_conv)

lemma length_Object_values: "length (Object_values obj) = length obj"
  by (simp add: Object_values_def length_own_properties)

lemma length_cols: "length (cols keys jsToSql) = length keys"
  by (simp add: cols_def)

lemma nth_cols:
  "i < length keys \<Longrightarrow> cols keys jsToSql ! i = col_fragment jsToSql (keys ! i) i"
  by (simp add: cols_def)

lemma placeholder_index_cols:
  "map placeholder_index (cols keys jsToSql) = map Some [1..<Suc (length keys)]"
proof (rule nth_equalityI)
  show "length (map placeholder_index (cols keys jsToSql)) = length (map Some [1..<Suc (length keys)])"
    by (simp add: length_cols del: upt_Suc)
next
  fix i
  assume "i < length (map placeholder_index (cols keys jsToSql))"
  then have i: "i < length keys"
    by (simp add: length_cols)
  then have "map placeholder_index (cols keys jsToSql) ! i = Some (Suc i)"
    by (simp add: length_cols nth_cols placeholder_index_col_fragment)
  moreover from i have "map Some [1..<Suc (length keys)] ! i = Some (Suc i)"
    by (simp del: upt_Suc)
  ultimately show "map placeholder_index (cols keys jsToSql) ! i = map Some [1..<Suc (length keys)] ! i"
    by simp
qed

lemma aligned_empty: "aligned \<lparr>valueArr = [], middlePartOfQueryArr = []\<rparr>"
  by (simp add: aligned_def)

lemma map_filter_snoc:
  "List.map_filter f (xs @ [x]) = List.map_filter f xs @ (case f x of None \<Rightarrow> [] | Some y \<Rightarrow> [y])"
  by (induction xs) (auto split: option.splits)

lemma aligned_push_criterion:
  assumes "aligned b"
  shows "aligned (push_criterion v (pre @ ''$'') b)"
proof -
  have "placeholder_index ((pre @ ''$'') @ string_of_nat (Suc (length (valueArr b)))) =
          Some (Suc (length (valueArr b)))"
    using placeholder_index_emitted [of pre "Suc (length (valueArr b))"] by simp
  with assms show ?thesis
    by (simp add: aligned_def push_criterion_def Let_def map_filter_snoc del: append_assoc)
qed

lemma aligned_company_if_name: "aligned b \<Longrightarrow> aligned (company_if_name nm b)"
  using aligned_push_criterion [of b _ "''name ILIKE ''"]
  by (simp add: company_if_name_def split: option.splits)

lemma aligned_company_if_minEmployees: "aligned b \<Longrightarrow> aligned (company_if_minEmployees m b)"
  using aligned_push_criterion [of b _ "''num_employees >= ''"]
  by (simp add: company_if_minEmployees_def split: option.splits)

lemma aligned_company_if_maxEmployees: "aligned b \<Longrightarrow> aligned (company_if_maxEmployees m b)"
  using aligned_push_criterion [of b _ "''num_employees <= ''"]
  by (simp add: company_if_maxEmployees_def split: option.splits)

lemma aligned_job_if_title: "aligned b \<Longrightarrow> aligned (job_if_title t b)"
  using aligned_push_criterion [of b _ "''title ILIKE ''"]
  by (simp add: job_if_title_def split: option.splits)

lemma aligned_job_if_minSalary: "aligned b \<Longrightarrow> aligned (job_if_minSalary m b)"
  using aligned_push_criterion [of b _ "''salary > ''"]
  by (simp add: job_if_minSalary_def split: option.splits)

lemma placeholder_index_equity: "placeholder_index ''equity > 0'' = None"
  by (simp add: placeholder_index_def)

lemma aligned_job_if_hasEquity: "aligned b \<Longrightarrow> aligned (job_if_hasEquity h b)"
  by (simp add: job_if_hasEquity_def aligned_def map_filter_snoc placeholder_index_equity)

lemma aligned_Company_build: "aligned (Company_build query)"
  unfolding Company_build_def
  by (intro aligned_company_if_maxEmployees aligned_company_if_minEmployees
        aligned_company_if_name aligned_empty)

lemma aligned_Job_build: "aligned (Job_build query)"
  unfolding Job_build_def
  by (intro aligned_job_if_hasEquity aligned_job_if_minSalary aligned_job_if_title aligned_empty)

lemma placeholder_index_small:
  "placeholder_index (pre @ ''$1'') = Some 1"
  "placeholder_index (pre @ ''$2'') = Some 2"
  "placeholder_index (pre @ ''$3'') = Some 3"
  using placeholder_index_emitted [of pre "Suc 0"]
        placeholder_index_emitted [of pre "Suc (Suc 0)"]
        placeholder_index_emitted [of pre "Suc (Suc (Suc 0))"]
  by (simp_all add: string_of_nat_small)

lemma Job_build_closed:
  "Job_build jq =
     \<lparr>valueArr =
        (case title jq of None \<Rightarrow> [] | Some t \<Rightarrow> if t = [] then [] else [JStr (''%'' @ t @ ''%'')]) @
        (case minSalary jq of None \<Rightarrow> [] | Some m \<Rightarrow> if m = 0 then [] else [JNum m]),
      middlePartOfQueryArr =
        (if truthy_string (title jq) then [''title ILIKE $1''] else []) @
        (if truthy_number (minSalary jq)
         then [if truthy_string (title jq) then ''salary > $2'' else ''salary > $1''] else []) @
        (if hasEquity jq = Some True then [''equity > 0''] else [])\<rparr>"
  by (simp add: Job_build_def job_if_title_def job_if_minSalary_def job_if_hasEquity_def
        push_criterion_def Let_def truthy_string_def truthy_number_def string_of_nat_small
        split: option.splits)

lemma Company_build_closed:
  "Company_build cq =
     \<lparr>valueArr =
        (case name cq of None \<Rightarrow> [] | Some t \<Rightarrow> if t = [] then [] else [JStr (''%'' @ t @ ''%'')]) @
        (case minEmployees cq of None \<Rightarrow> [] | Some m \<Rightarrow> if m = 0 then [] else [JNum m]) @
        (case maxEmployees cq of None \<Rightarrow> [] | Some m \<Rightarrow> if m = 0 then [] else [JNum m]),
      middlePartOfQueryArr =
        (if truthy_string (name cq) then [''name ILIKE $1''] else []) @
        (if truthy_number (minEmployees cq)
         then [if truthy_string (name cq) then ''num_employees >= $2'' else ''num_employees >= $1'']
         else []) @
        (if truthy_number (maxEmployees cq)
         then [if truthy_string (name cq)
               then (if truthy_number (minEmployees cq) then ''num_employees <= $3'' else ''num_employees <= $2'')
               else (if truthy_number (minEmployees cq) then ''num_employees <= $2'' else ''num_employees <= $1'')]
         else [])\<rparr>"
  by (simp add: Company_build_def company_if_name_def company_if_minEmployees_def
        company_if_maxEmployees_def
        push_criterion_def Let_def truthy_string_def truthy_number_def string_of_nat_small
        split: option.splits)

lemma zip_upt_shift:
  "zip ks [Suc 0..<Suc (length ks)] = map (\<lambda>(k, i). (k, Suc i)) (zip ks [0..<length ks])"
proof -
  have "[Suc 0..<Suc (length ks)] = map Suc [0..<length ks]"
    by (simp add: map_Suc_upt del: upt_Suc)
  then show ?thesis
    by (simp add: zip_map2 del: upt_Suc)
qed

lemma sql_words_acc_space:
  "sql_words_acc w (xs @ CHR '' '' # ys) = sql_words_acc w xs @ sql_words ys"
  by (induction xs arbitrary: w) (simp_all add: sql_words_def)

lemma sql_words_space: "sql_words (xs @ CHR '' '' # ys) = sql_words xs @ sql_words ys"
  by (simp add: sql_words_def sql_words_acc_space)

lemma sql_words_company_firstPartOfQuery:
  \<open>sql_words company_firstPartOfQuery =
     [''SELECT'', ''handle,'', ''name,'', ''description,'', ''num_employees'', ''AS'',
      ''"numEmployees",'', ''logo_url'', ''AS'', ''"logoUrl"'', ''FROM'', ''companies'', ''WHERE'']\<close>
  by (simp add: sql_words_def company_firstPartOfQuery_def)

lemma sql_words_job_firstPartOfQuery:
  \<open>sql_words job_firstPartOfQuery =
     [''SELECT'', ''id,'', ''title,'', ''salary,'', ''equity,'', ''company_handle'', ''AS'',
      ''"companyHandle"'', ''FROM'', ''jobs'', ''WHERE'']\<close>
  by (simp add: sql_words_def job_firstPartOfQuery_def)

lemma sql_words_job_findAll_text:
  \<open>sql_words job_findAll_text =
     [''SELECT'', ''id,'', ''title,'', ''salary,'', ''equity,'', ''company_handle'', ''AS'',
      ''"companyHandle"'', ''FROM'', ''jobs'', ''ORDER'', ''BY'', ''title'']\<close>
  by (simp add: sql_words_def job_findAll_text_def)

lemma sql_words_lastPartOfQuery:
  "sql_words company_lastPartOfQuery = [''ORDER'', ''BY'', ''name'']"
  "sql_words job_lastPartOfQuery = [''ORDER'', ''BY'', ''title'']"
  by (simp_all add: sql_words_def company_lastPartOfQuery_def job_lastPartOfQuery_def)

lemma sql_words_compose_query:
  "sql_words (compose_query firstPartOfQuery middleArr lastPartOfQuery) =
     sql_words firstPartOfQuery @ sql_words (join '' AND '' middleArr) @ sql_words lastPartOfQuery"
  by (simp add: compose_query_def sql_words_space)

lemma truthy_boolean_iff: "truthy_boolean h = (h = Some True)"
  by (simp add: truthy_boolean_def split: option.splits)

lemma dangling_Job_query_text:
  "dangling_where (sql_words (Job_query_text jq)) =
     (\<not> truthy_string (title jq) \<and> \<not> truthy_number (minSalary jq) \<and>
      \<not> truthy_boolean (hasEquity jq))"
  apply (cases "truthy_string (title jq)"; cases "truthy_number (minSalary jq)";
      cases "hasEquity jq = Some True")
  by (simp_all add: Job_query_text_def sql_words_compose_query sql_words_job_firstPartOfQuery
        sql_words_lastPartOfQuery Job_build_closed truthy_boolean_iff)
     (simp_all add: sql_words_def)

lemma dangling_Company_query_text:
  "dangling_where (sql_words (Company_query_text cq)) =
     (\<not> truthy_string (name cq) \<and> \<not> truthy_number (minEmployees cq) \<and>
      \<not> truthy_number (maxEmployees cq))"
  apply (cases "truthy_string (name cq)"; cases "truthy_number (minEmployees cq)";
      cases "truthy_number (maxEmployees cq)")
  by (simp_all add: Company_query_text_def sql_words_compose_query
        sql_words_company_firstPartOfQuery sql_words_lastPartOfQuery Company_build_closed)
     (simp_all add: sql_words_def)

lemma not_dangling_job_findAll_text: "\<not> dangling_where (sql_words job_findAll_text)"
  by (simp add: sql_words_job_findAll_text)

lemma snd_rows_or_not_found: "snd (rows_or_not_found msg r) = snd r"
  by (cases r) (simp add: rows_or_not_found_def split: sum.splits)

lemma issued_Job_filter:
  "issued (snd (Job_filter jq d)) = issued d @ [(Job_query_text jq, valueArr (Job_build jq))]"
  by (simp add: Job_filter_def snd_rows_or_not_found db_query_def)

lemma issued_Job_findAll:
  "issued (snd (Job_findAll d)) = issued d @ [(job_findAll_text, [])]"
  by (simp add: Job_findAll_def db_query_def)

section \<open>Auxiliary facts: property order\<close>

lemma own_properties_no_index:
  assumes "\<forall>k \<in> set (map fst obj). array_index k = None"
  shows "own_properties obj = obj"
proof -
  have "filter (\<lambda>p. array_index (fst p) \<noteq> None) obj = []"
    using assms by (auto simp: filter_empty_conv)
  moreover have "filter (\<lambda>p. array_index (fst p) = None) obj = obj"
    using assms by (auto simp: filter_id_conv)
  ultimately show ?thesis
    by (simp add: own_properties_def)
qed

lemma mset_own_properties: "mset (own_properties obj) = mset obj"
proof -
  have "mset (filter (\<lambda>p. array_index (fst p) \<noteq> None) obj) +
        mset (filter (\<lambda>p. \<not> array_index (fst p) \<noteq> None) obj) = mset obj"
    by (simp only: mset_filter multiset_partition [symmetric])
  then show ?thesis
    by (simp add: own_properties_def)
qed

lemma zip_Object_keys_values: "zip (Object_keys obj) (Object_values obj) = own_properties obj"
  by (simp add: Object_keys_def Object_values_def zip_map_fst_snd)

lemma array_index_not_digit: "digit_of_char c = None \<Longrightarrow> array_index (c # cs) = None"
  by (simp add: array_index_def parse_nat_def)

lemma array_index_small:
  "array_index ''1'' = Some 1" "array_index ''2'' = Some 2"
  by (simp_all add: array_index_def parse_nat_def digit_of_char_def string_of_nat_numeral
        string_of_nat_small)

section \<open>Auxiliary facts: placeholders in a statement text\<close>

lemma sql_scan_Ident_skip:
  "CHR 0x22 \<notin> set nm \<Longrightarrow> sql_scan Ident (nm @ CHR 0x22 # rest) = sql_scan Plain rest"
  by (induction nm) auto

lemma sql_scan_Dollar_digits:
  "parse_digits a ds = Some n \<Longrightarrow>
     sql_scan (Dollar (Some a)) (ds @ rest) = sql_scan (Dollar (Some n)) rest"
  by (induction ds arbitrary: a) (auto split: option.splits)

lemma sql_scan_Dollar_number:
  assumes "ds \<noteq> []" and "parse_digits 0 ds = Some n"
  shows "sql_scan (Dollar None) (ds @ rest) = sql_scan (Dollar (Some n)) rest"
proof (cases ds)
  case Nil
  with assms show ?thesis by simp
next
  case (Cons c cs)
  with assms obtain d where d: "digit_of_char c = Some d" and p: "parse_digits d cs = Some n"
    by (auto split: option.splits)
  from p have "sql_scan (Dollar (Some d)) (cs @ rest) = sql_scan (Dollar (Some n)) rest"
    by (rule sql_scan_Dollar_digits)
  with Cons d show ?thesis by simp
qed

lemma sql_scan_fragment:
  assumes "CHR 0x22 \<notin> set nm"
  shows "sql_scan Plain (CHR 0x22 # nm @ CHR 0x22 # CHR ''='' # CHR ''$'' # string_of_nat k @ rest) =
           sql_scan (Dollar (Some k)) rest"
proof -
  have "sql_scan Plain (CHR 0x22 # nm @ CHR 0x22 # CHR ''='' # CHR ''$'' # string_of_nat k @ rest) =
        sql_scan Ident (nm @ CHR 0x22 # CHR ''='' # CHR ''$'' # string_of_nat k @ rest)"
    by (simp add: plain_next_def)
  also have "\<dots> = sql_scan Plain (CHR ''='' # CHR ''$'' # string_of_nat k @ rest)"
    using assms by (rule sql_scan_Ident_skip)
  also have "\<dots> = sql_scan (Dollar None) (string_of_nat k @ rest)"
    by (simp add: plain_next_def)
  also have "\<dots> = sql_scan (Dollar (Some k)) rest"
    by (rule sql_scan_Dollar_number [OF string_of_nat_nonempty parse_digits_string_of_nat])
  finally show ?thesis .
qed

lemma sql_scan_after_number:
  "sql_scan (Dollar (Some k)) [] = [k]"
  "sql_scan (Dollar (Some k)) (CHR '','' # CHR '' '' # rest) = k # sql_scan Plain rest"
  by (simp_all add: emit_def digit_of_char_def plain_next_def)

lemma sql_placeholders_join:
  assumes "\<forall>p \<in> set ps. CHR 0x22 \<notin> set (fst p)"
  shows "sql_scan Plain (join '', '' (map quoted_assignment ps)) = map snd ps"
  using assms
proof (induction ps rule: induct_list012)
  case 1
  show ?case by simp
next
  case (2 p)
  then have "CHR 0x22 \<notin> set (fst p)" by simp
  from sql_scan_fragment [OF this, of "snd p" "[]"] show ?case
    by (simp add: quoted_assignment_def emit_def)
next
  case (3 p q ps)
  then have q: "CHR 0x22 \<notin> set (fst p)" and rest: "\<forall>p \<in> set (q # ps). CHR 0x22 \<notin> set (fst p)"
    by simp_all
  have "sql_scan Plain (join '', '' (map quoted_assignment (p # q # ps))) =
        sql_scan Plain (CHR 0x22 # fst p @ CHR 0x22 # CHR ''='' # CHR ''$'' # string_of_nat (snd p) @
                         (CHR '','' # CHR '' '' # join '', '' (map quoted_assignment (q # ps))))"
    by (simp add: quoted_assignment_def)
  also have "\<dots> = sql_scan (Dollar (Some (snd p)))
                      (CHR '','' # CHR '' '' # join '', '' (map quoted_assignment (q # ps)))"
    using q by (rule sql_scan_fragment)
  also have "\<dots> = snd p # sql_scan Plain (join '', '' (map quoted_assignment (q # ps)))"
    by (rule sql_scan_after_number)
  also have "\<dots> = snd p # map snd (q # ps)"
    using "3.IH"(2) rest by simp
  finally show ?case by simp
qed

lemma cols_quoted_assignment:
  "cols keys jsToSql =
     map quoted_assignment
       (zip (map (\<lambda>k. js_or (js_lookup jsToSql k) k) keys) [Suc 0..<Suc (length keys)])"
proof -
  have "zip (map (\<lambda>k. js_or (js_lookup jsToSql k) k) keys) [Suc 0..<Suc (length keys)] =
        map (\<lambda>(k, i). (js_or (js_lookup jsToSql k) k, Suc i)) (zip keys [0..<length keys])"
    by (simp add: zip_upt_shift zip_map1 case_prod_unfold del: upt_Suc)
  then show ?thesis
    by (simp add: cols_def col_fragment_def quoted_assignment_def case_prod_unfold del: upt_Suc)
qed

lemma sql_placeholders_cols:
  assumes "\<forall>k \<in> set keys. CHR 0x22 \<notin> set (js_or (js_lookup jsToSql k) k)"
  shows "sql_placeholders (join '', '' (cols keys jsToSql)) = [1..<Suc (length keys)]"
proof -
  let ?ps = "zip (map (\<lambda>k. js_or (js_lookup jsToSql k) k) keys) [Suc 0..<Suc (length keys)]"
  have "\<forall>p \<in> set ?ps. CHR 0x22 \<notin> set (fst p)"
    using assms by (auto dest!: set_zip_leftD)
  then have "sql_scan Plain (join '', '' (map quoted_assignment ?ps)) = map snd ?ps"
    by (rule sql_placeholders_join)
  moreover have "map snd ?ps = [Suc 0..<Suc (length keys)]"
    by (simp del: upt_Suc)
  ultimately show ?thesis
    by (simp add: sql_placeholders_def cols_quoted_assignment del: upt_Suc)
qed

lemma sql_placeholders_Company_query_text:
  "sql_placeholders (Company_query_text cq) = [1..<Suc (length (valueArr (Company_build cq)))]"
  apply (cases "truthy_string (name cq)"; cases "truthy_number (minEmployees cq)";
      cases "truthy_number (maxEmployees cq)")
  by (simp_all add: Company_query_text_def compose_query_def company_firstPartOfQuery_def
        company_lastPartOfQuery_def Company_build_closed sql_placeholders_def plain_next_def
        digit_of_char_def emit_def truthy_string_def truthy_number_def upt_rec
        split: option.splits)

lemma sql_placeholders_Job_query_text:
  "sql_placeholders (Job_query_text jq) = [1..<Suc (length (valueArr (Job_build jq)))]"
  apply (cases "truthy_string (title jq)"; cases "truthy_number (minSalary jq)";
      cases "hasEquity jq = Some True")
  by (simp_all add: Job_query_text_def compose_query_def job_firstPartOfQuery_def
        job_lastPartOfQuery_def Job_build_closed sql_placeholders_def plain_next_def
        digit_of_char_def emit_def truthy_string_def truthy_number_def upt_rec
        split: option.splits)

lemma length_valueArr_Company_build:
  "length (valueArr (Company_build cq)) =
     (if truthy_string (name cq) then 1 else 0) +
     (if truthy_number (minEmployees cq) then 1 else 0) +
     (if truthy_number (maxEmployees cq) then 1 else 0)"
  by (simp add: Company_build_closed truthy_string_def truthy_number_def split: option.splits)

lemma length_valueArr_Job_build:
  "length (valueArr (Job_build jq)) =
     (if truthy_string (title jq) then 1 else 0) +
     (if truthy_number (minSalary jq) then 1 else 0)"
  by (simp add: Job_build_closed truthy_string_def truthy_number_def split: option.splits)

lemma js_or_spec:
  assumes "jsToSql k \<noteq> None \<or> Object_prototype k = None"
  shows "js_or (js_lookup jsToSql k) k = spec_physical_name (jsToSql |` {k. jsToSql k \<noteq> Some []}) k"
  using assms
  by (auto simp: js_or_def js_lookup_def spec_physical_name_def restrict_map_def
        split: option.splits)

lemma col_fragment_spec:
  assumes "jsToSql k \<noteq> None \<or> Object_prototype k = None"
  shows "col_fragment jsToSql k idx =
           spec_fragment (jsToSql |` {k. jsToSql k \<noteq> Some []}) k (Suc idx)"
  using js_or_spec [of jsToSql k] assms
  by (simp add: col_fragment_def spec_fragment_def)

lemma cols_spec:
  assumes "\<forall>k \<in> set keys. jsToSql k \<noteq> None \<or> Object_prototype k = None"
  shows "cols keys jsToSql =
     map (\<lambda>(k, position). spec_fragment (jsToSql |` {k. jsToSql k \<noteq> Some []}) k position)
       (zip keys [Suc 0..<Suc (length keys)])"
proof (rule nth_equalityI)
  show "length (cols keys jsToSql) =
        length (map (\<lambda>(k, position). spec_fragment (jsToSql |` {k. jsToSql k \<noteq> Some []}) k position)
                  (zip keys [Suc 0..<Suc (length keys)]))"
    by (simp add: length_cols del: upt_Suc)
next
  fix i
  assume "i < length (cols keys jsToSql)"
  then have i: "i < length keys"
    by (simp add: length_cols)
  then have "keys ! i \<in> set keys"
    by simp
  then have "jsToSql (keys ! i) \<noteq> None \<or> Object_prototype (keys ! i) = None"
    by (rule bspec [OF assms])
  then have "col_fragment jsToSql (keys ! i) i =
             spec_fragment (jsToSql |` {k. jsToSql k \<noteq> Some []}) (keys ! i) (Suc i)"
    using col_fragment_spec [of jsToSql "keys ! i" i] by simp
  with i show "cols keys jsToSql ! i =
        map (\<lambda>(k, position). spec_fragment (jsToSql |` {k. jsToSql k \<noteq> Some []}) k position)
          (zip keys [Suc 0..<Suc (length keys)]) ! i"
    by (simp add: nth_cols del: upt_Suc)
qed

lemma spec_setCols_restrict:
  assumes "\<forall>k \<in> set (map fst payload). fieldNameMap k \<noteq> Some []"
  shows "spec_setCols payload (fieldNameMap |` {k. fieldNameMap k \<noteq> Some []}) =
           spec_setCols payload fieldNameMap"
proof -
  have "spec_fragment (fieldNameMap |` {k. fieldNameMap k \<noteq> Some []}) k position =
        spec_fragment fieldNameMap k position"
    if "(k, position) \<in> set (zip (map fst payload) [1..<Suc (length payload)])"
    for k position
  proof -
    from that have "k \<in> set (map fst payload)"
      by (rule set_zip_leftD)
    then have "fieldNameMap k \<noteq> Some []"
      by (rule bspec [OF assms])
    then show ?thesis
      by (simp add: spec_fragment_def spec_physical_name_def restrict_map_def)
  qed
  then show ?thesis
    unfolding spec_setCols_def
    by (intro arg_cong [where f = "join '', ''"] map_cong) auto
qed

section \<open>The partial-update builder: properties\<close>

text \<open>
  C5. With an empty payload \<open>sqlForPartialUpdate\<close> fails with the bad-request error
  "No data", whatever the field-name map; with a payload of at least one key it returns a
  clause and raises no error.
\<close>

theorem sqlForPartialUpdate_no_data:
  "sqlForPartialUpdate [] jsToSql = Inl (BadRequestError ''No data'') \<and>
   sqlForPartialUpdate (kv # rest) jsToSql =
     Inr \<lparr>setCols = join '', '' (cols (Object_keys (kv # rest)) jsToSql),
          values = Object_values (kv # rest)\<rparr>"
  by (simp add: sqlForPartialUpdate_def Let_def Object_keys_Nil_iff)

section \<open>Validation and the not-found policy\<close>

text \<open>
  C3. When both bounds are supplied to \<open>Company.filter\<close> and \<open>minEmployees\<close> is greater
  than \<open>maxEmployees\<close>, the method fails with the bad-request error at once: the database
  handle comes back as it went in (no statement was issued, whatever the store would have
  answered), and neither array of the builder has been touched, since the check is the
  first statement of the method.
\<close>

theorem Company_filter_min_above_max:
  assumes "minEmployees query = Some lo" and "maxEmployees query = Some hi" and "lo > hi"
  shows "Company_filter query d =
           (Inl (BadRequestError
                   ''Maximum employees number must be larger than minimum employees number.''), d) \<and>
         issued (snd (Company_filter query d)) = issued d"
  using assms by (simp add: Company_filter_def js_gt_def)

theorem Company_filter_min_above_max_witness:
  "Company_filter \<lparr>name = None, minEmployees = Some 10, maxEmployees = Some 5\<rparr>
       \<lparr>respond = (\<lambda>text vs. Inr [[(''handle'', JStr ''c1'')]]), issued = []\<rparr> =
     (Inl (BadRequestError
             ''Maximum employees number must be larger than minimum employees number.''),
      \<lparr>respond = (\<lambda>text vs. Inr [[(''handle'', JStr ''c1'')]]), issued = []\<rparr>)"
  using Company_filter_min_above_max
    [of "\<lparr>name = None, minEmployees = Some 10, maxEmployees = Some 5\<rparr>" 10 5
        "\<lparr>respond = (\<lambda>text vs. Inr [[(''handle'', JStr ''c1'')]]), issued = []\<rparr>"]
  by simp

text \<open>
  C8. In both filter methods, once the statement has been issued: an empty result set
  becomes a \<open>NotFoundError\<close> and a non-empty one is returned as it is. In either case the
  statement is on the handle's record, so the error comes after the query. (For
  companies the statement is only issued when the bounds check passes.)
\<close>

theorem filter_empty_result_not_found:
  "(\<not> js_gt (minEmployees cq) (maxEmployees cq) \<and>
    respond d (Company_query_text cq) (valueArr (Company_build cq)) = Inr rows \<longrightarrow>
      Company_filter cq d =
        (if rows = [] then Inl (NotFoundError ''No company found matching your search criteria'')
         else Inr rows,
         d\<lparr>issued := issued d @ [(Company_query_text cq, valueArr (Company_build cq))]\<rparr>)) \<and>
   (respond d (Job_query_text jq) (valueArr (Job_build jq)) = Inr rows' \<longrightarrow>
      Job_filter jq d =
        (if rows' = [] then Inl (NotFoundError ''No jobs found matching your search criteria'')
         else Inr rows',
         d\<lparr>issued := issued d @ [(Job_query_text jq, valueArr (Job_build jq))]\<rparr>))"
  by (simp add: Company_filter_def Job_filter_def rows_or_not_found_def db_query_def)


text \<open>
  The model test "search criteria don't match any jobs", and a company search with one
  matching row.
\<close>

theorem filter_empty_result_not_found_witness:
  "Job_filter \<lparr>title = Some ''name'', minSalary = None, hasEquity = None\<rparr>
       \<lparr>respond = (\<lambda>text vs. Inr []), issued = []\<rparr> =
     (Inl (NotFoundError ''No jobs found matching your search criteria''),
      \<lparr>respond = (\<lambda>text vs. Inr []),
       issued = [(Job_query_text \<lparr>title = Some ''name'', minSalary = None, hasEquity = None\<rparr>,
                  [JStr ''%name%''])]\<rparr>) \<and>
   Company_filter \<lparr>name = Some ''c1'', minEmployees = None, maxEmployees = None\<rparr>
       \<lparr>respond = (\<lambda>text vs. Inr [[(''handle'', JStr ''c1'')]]), issued = []\<rparr> =
     (Inr [[(''handle'', JStr ''c1'')]],
      \<lparr>respond = (\<lambda>text vs. Inr [[(''handle'', JStr ''c1'')]]),
       issued = [(Company_query_text \<lparr>name = Some ''c1'', minEmployees = None, maxEmployees = None\<rparr>,
                  [JStr ''%c1%''])]\<rparr>)"
  using
    filter_empty_result_not_found
      [of "\<lparr>name = Some ''c1'', minEmployees = None, maxEmployees = None\<rparr>"
          "\<lparr>respond = (\<lambda>text vs. Inr []), issued = []\<rparr>" "[]"
          "\<lparr>title = Some ''name'', minSalary = None, hasEquity = None\<rparr>" "[]"]
    filter_empty_result_not_found
      [of "\<lparr>name = Some ''c1'', minEmployees = None, maxEmployees = None\<rparr>"
          "\<lparr>respond = (\<lambda>text vs. Inr [[(''handle'', JStr ''c1'')]]), issued = []\<rparr>"
          "[[(''handle'', JStr ''c1'')]]"
          "\<lparr>title = Some ''name'', minSalary = None, hasEquity = None\<rparr>"
          "[[(''handle'', JStr ''c1'')]]"]
  by (simp add: js_gt_def Job_build_def job_if_title_def job_if_minSalary_def
        job_if_hasEquity_def Company_build_def company_if_name_def
        company_if_minEmployees_def company_if_maxEmployees_def push_criterion_def Let_def)

section \<open>Criteria that emit nothing, and the equity literal\<close>

text \<open>
  C4. With \<open>hasEquity\<close> true the job builder appends the literal fragment \<open>equity > 0\<close>
  after the fragments it would have produced without the criterion: those fragments and
  the value list are the same as without it, the literal holds no dollar sign and reads
  back no placeholder. With \<open>hasEquity\<close> false the builder state is the one for an absent
  \<open>hasEquity\<close>, and that state holds no equity fragment.
\<close>

theorem hasEquity_literal_fragment:
  "Job_build (jq\<lparr>hasEquity := Some True\<rparr>) =
     (Job_build (jq\<lparr>hasEquity := None\<rparr>))
       \<lparr>middlePartOfQueryArr :=
          middlePartOfQueryArr (Job_build (jq\<lparr>hasEquity := None\<rparr>)) @ [''equity > 0'']\<rparr> \<and>
   valueArr (Job_build (jq\<lparr>hasEquity := Some True\<rparr>)) =
     valueArr (Job_build (jq\<lparr>hasEquity := None\<rparr>)) \<and>
   CHR ''$'' \<notin> set ''equity > 0'' \<and>
   placeholder_index ''equity > 0'' = None \<and>
   Job_build (jq\<lparr>hasEquity := Some False\<rparr>) = Job_build (jq\<lparr>hasEquity := None\<rparr>) \<and>
   ''equity > 0'' \<notin> set (middlePartOfQueryArr (Job_build (jq\<lparr>hasEquity := None\<rparr>)))"
proof -
  have "''equity > 0'' \<notin> set (middlePartOfQueryArr (Job_build (jq\<lparr>hasEquity := None\<rparr>)))"
    by (simp add: Job_build_def job_if_hasEquity_def job_if_minSalary_def job_if_title_def
          push_criterion_def Let_def split: option.splits)
  then show ?thesis
    by (simp add: Job_build_def job_if_hasEquity_def placeholder_index_equity)
qed

text \<open>
  C7. A criterion supplied with a falsy value (the empty string for a name or title, zero
  for a bound) leaves the builder state as it is: no fragment is emitted and no value is
  appended. The builder state for such a query is the state for the query without the
  criterion.
\<close>

theorem falsy_criterion_emits_nothing:
  "(\<not> truthy_string s \<longrightarrow> company_if_name s b = b \<and> job_if_title s b = b) \<and>
   (\<not> truthy_number n \<longrightarrow>
      company_if_minEmployees n b = b \<and> company_if_maxEmployees n b = b \<and>
      job_if_minSalary n b = b) \<and>
   \<not> truthy_string (Some []) \<and> \<not> truthy_number (Some 0) \<and>
   Company_build (cq\<lparr>name := Some []\<rparr>) = Company_build (cq\<lparr>name := None\<rparr>) \<and>
   Company_build (cq\<lparr>minEmployees := Some 0\<rparr>) = Company_build (cq\<lparr>minEmployees := None\<rparr>) \<and>
   Company_build (cq\<lparr>maxEmployees := Some 0\<rparr>) = Company_build (cq\<lparr>maxEmployees := None\<rparr>) \<and>
   Job_build (jq\<lparr>title := Some []\<rparr>) = Job_build (jq\<lparr>title := None\<rparr>) \<and>
   Job_build (jq\<lparr>minSalary := Some 0\<rparr>) = Job_build (jq\<lparr>minSalary := None\<rparr>)"
  by (simp add: truthy_string_def truthy_number_def company_if_name_def job_if_title_def
        company_if_minEmployees_def company_if_maxEmployees_def job_if_minSalary_def
        Company_build_def Job_build_def split: option.splits)

theorem falsy_criterion_emits_nothing_witness:
  "\<not> truthy_string (Some []) \<and> \<not> truthy_number (Some 0) \<and>
   company_if_name (Some []) \<lparr>valueArr = [], middlePartOfQueryArr = []\<rparr> =
     \<lparr>valueArr = [], middlePartOfQueryArr = []\<rparr> \<and>
   job_if_minSalary (Some 0) \<lparr>valueArr = [JStr ''%j%''], middlePartOfQueryArr = [''title ILIKE $1'']\<rparr> =
     \<lparr>valueArr = [JStr ''%j%''], middlePartOfQueryArr = [''title ILIKE $1'']\<rparr> \<and>
   Company_build \<lparr>name = Some [], minEmployees = Some 0, maxEmployees = Some 0\<rparr> =
     \<lparr>valueArr = [], middlePartOfQueryArr = []\<rparr>"
  using
    falsy_criterion_emits_nothing
      [of "Some []" "\<lparr>valueArr = [], middlePartOfQueryArr = []\<rparr>" "Some 0"
          "\<lparr>name = None, minEmployees = None, maxEmployees = None\<rparr>"
          "\<lparr>title = None, minSalary = None, hasEquity = None\<rparr>"]
    falsy_criterion_emits_nothing
      [of "Some []" "\<lparr>valueArr = [JStr ''%j%''], middlePartOfQueryArr = [''title ILIKE $1'']\<rparr>"
          "Some 0"
          "\<lparr>name = None, minEmployees = None, maxEmployees = None\<rparr>"
          "\<lparr>title = None, minSalary = None, hasEquity = None\<rparr>"]
  by (simp add: Company_build_def company_if_name_def company_if_minEmployees_def
        company_if_maxEmployees_def)

section \<open>Operators and bound values\<close>

text \<open>
  C6 (amended). For a job query whose \<open>minSalary\<close> is supplied and not zero, the builder
  emits the strict predicate \<open>salary > $n\<close>, where \<open>n\<close> is 2 when a non-empty title precedes
  it and 1 otherwise, and the store binds the raw \<open>minSalary\<close> to that placeholder; the
  query \<open>{minSalary: 40000}\<close> gives \<open>salary > $1\<close> bound to 40000. For a company query a
  non-zero \<open>minEmployees\<close> is emitted with \<open>>=\<close> and a non-zero \<open>maxEmployees\<close> with \<open><=\<close>,
  each bound to its raw value at the position that the criteria before it leave.
\<close>

theorem minSalary_strict_inequality:
  "(minSalary jq = Some s \<and> s \<noteq> 0 \<longrightarrow>
      (let n = (if truthy_string (title jq) then 2 else 1);
           fragment = ''salary > $'' @ string_of_nat n
       in middlePartOfQueryArr (Job_build jq) ! (n - 1) = fragment \<and>
          bound_value (Job_build jq) fragment = Some (JNum s))) \<and>
   Job_build \<lparr>title = None, minSalary = Some 40000, hasEquity = None\<rparr> =
     \<lparr>valueArr = [JNum 40000], middlePartOfQueryArr = [''salary > $1'']\<rparr> \<and>
   (minEmployees cq = Some lo \<and> lo \<noteq> 0 \<longrightarrow>
      (let n = (if truthy_string (name cq) then 2 else 1);
           fragment = ''num_employees >= $'' @ string_of_nat n
       in middlePartOfQueryArr (Company_build cq) ! (n - 1) = fragment \<and>
          bound_value (Company_build cq) fragment = Some (JNum lo))) \<and>
   (maxEmployees cq = Some hi \<and> hi \<noteq> 0 \<longrightarrow>
      (let n = (if truthy_string (name cq) then 1 else 0) +
               (if truthy_number (minEmployees cq) then 1 else 0) + 1;
           fragment = ''num_employees <= $'' @ string_of_nat n
       in middlePartOfQueryArr (Company_build cq) ! (n - 1) = fragment \<and>
          bound_value (Company_build cq) fragment = Some (JNum hi)))"
proof -
  have p: "placeholder_index (''salary > '' @ ''$1'') = Some 1"
          "placeholder_index (''salary > '' @ ''$2'') = Some 2"
          "placeholder_index (''num_employees >= '' @ ''$1'') = Some 1"
          "placeholder_index (''num_employees >= '' @ ''$2'') = Some 2"
          "placeholder_index (''num_employees <= '' @ ''$1'') = Some 1"
          "placeholder_index (''num_employees <= '' @ ''$2'') = Some 2"
          "placeholder_index (''num_employees <= '' @ ''$3'') = Some 3"
    by (rule placeholder_index_small)+
  have job: "(let n = (if truthy_string (title jq) then 2 else 1);
              fragment = ''salary > $'' @ string_of_nat n
          in middlePartOfQueryArr (Job_build jq) ! (n - 1) = fragment \<and>
             bound_value (Job_build jq) fragment = Some (JNum s))"
    if h: "minSalary jq = Some s \<and> s \<noteq> 0"
  proof -
    from h have tn: "truthy_number (minSalary jq)"
      by (simp add: truthy_number_def)
    show ?thesis
    proof (cases "truthy_string (title jq)")
      case True
      with h tn p(2) show ?thesis
        by (simp add: Let_def string_of_nat_numeral string_of_nat_small Job_build_closed
              bound_value_def truthy_string_def split: option.splits)
    next
      case False
      with h tn p(1) show ?thesis
        by (simp add: Let_def string_of_nat_numeral string_of_nat_small Job_build_closed
              bound_value_def truthy_string_def split: option.splits)
    qed
  qed
  have ex: "Job_build \<lparr>title = None, minSalary = Some 40000, hasEquity = None\<rparr> =
           \<lparr>valueArr = [JNum 40000], middlePartOfQueryArr = [''salary > $1'']\<rparr>"
    by (simp add: Job_build_closed truthy_string_def truthy_number_def)
  have lo: "(let n = (if truthy_string (name cq) then 2 else 1);
              fragment = ''num_employees >= $'' @ string_of_nat n
          in middlePartOfQueryArr (Company_build cq) ! (n - 1) = fragment \<and>
             bound_value (Company_build cq) fragment = Some (JNum lo))"
    if h: "minEmployees cq = Some lo \<and> lo \<noteq> 0"
  proof -
    from h have tn: "truthy_number (minEmployees cq)"
      by (simp add: truthy_number_def)
    show ?thesis
    proof (cases "truthy_string (name cq)")
      case True
      with h tn p(4) show ?thesis
        by (simp add: Let_def string_of_nat_numeral string_of_nat_small Company_build_closed
              bound_value_def truthy_string_def split: option.splits)
    next
      case False
      with h tn p(3) show ?thesis
        by (simp add: Let_def string_of_nat_numeral string_of_nat_small Company_build_closed
              bound_value_def truthy_string_def split: option.splits)
    qed
  qed
  have hi: "(let n = (if truthy_string (name cq) then 1 else 0) +
               (if truthy_number (minEmployees cq) then 1 else 0) + 1;
              fragment = ''num_employees <= $'' @ string_of_nat n
          in middlePartOfQueryArr (Company_build cq) ! (n - 1) = fragment \<and>
             bound_value (Company_build cq) fragment = Some (JNum hi))"
    if h: "maxEmployees cq = Some hi \<and> hi \<noteq> 0"
  proof -
    from h have tn: "truthy_number (maxEmployees cq)"
      by (simp add: truthy_number_def)
    show ?thesis
    proof (cases "truthy_string (name cq)"; cases "truthy_number (minEmployees cq)")
      assume "truthy_string (name cq)" "truthy_number (minEmployees cq)"
      with h tn p(7) show ?thesis
        by (simp add: Let_def string_of_nat_numeral string_of_nat_small Company_build_closed
              bound_value_def truthy_string_def truthy_number_def split: option.splits)
    next
      assume "truthy_string (name cq)" "\<not> truthy_number (minEmployees cq)"
      with h tn p(6) show ?thesis
        by (simp add: Let_def string_of_nat_numeral string_of_nat_small Company_build_closed
              bound_value_def truthy_string_def truthy_number_def split: option.splits)
    next
      assume "\<not> truthy_string (name cq)" "truthy_number (minEmployees cq)"
      with h tn p(6) show ?thesis
        by (simp add: Let_def string_of_nat_numeral string_of_nat_small Company_build_closed
              bound_value_def truthy_string_def truthy_number_def split: option.splits)
    next
      assume "\<not> truthy_string (name cq)" "\<not> truthy_number (minEmployees cq)"
      with h tn p(5) show ?thesis
        by (simp add: Let_def string_of_nat_numeral string_of_nat_small Company_build_closed
              bound_value_def truthy_string_def truthy_number_def split: option.splits)
    qed
  qed
  from job ex lo hi show ?thesis by blast
qed

theorem minSalary_strict_inequality_witness:
  "middlePartOfQueryArr
       (Job_build \<lparr>title = Some ''j'', minSalary = Some 40000, hasEquity = Some True\<rparr>) ! 1 =
     ''salary > $2'' \<and>
   bound_value (Job_build \<lparr>title = Some ''j'', minSalary = Some 40000, hasEquity = Some True\<rparr>)
       ''salary > $2'' = Some (JNum 40000) \<and>
   middlePartOfQueryArr
       (Company_build \<lparr>name = None, minEmployees = Some 5, maxEmployees = Some 12\<rparr>) ! 0 =
     ''num_employees >= $1'' \<and>
   bound_value (Company_build \<lparr>name = None, minEmployees = Some 5, maxEmployees = Some 12\<rparr>)
       ''num_employees >= $1'' = Some (JNum 5) \<and>
   middlePartOfQueryArr
       (Company_build \<lparr>name = None, minEmployees = Some 5, maxEmployees = Some 12\<rparr>) ! 1 =
     ''num_employees <= $2'' \<and>
   bound_value (Company_build \<lparr>name = None, minEmployees = Some 5, maxEmployees = Some 12\<rparr>)
       ''num_employees <= $2'' = Some (JNum 12)"
  using minSalary_strict_inequality
    [of "\<lparr>title = Some ''j'', minSalary = Some 40000, hasEquity = Some True\<rparr>" 40000
        "\<lparr>name = None, minEmployees = Some 5, maxEmployees = Some 12\<rparr>" 5 12]
  by (simp add: Let_def truthy_string_def truthy_number_def string_of_nat_numeral
        string_of_nat_small)

text \<open>
  The claim as first stated covers every supplied \<open>minSalary\<close>; at \<open>minSalary: 0\<close> the
  builder emits no salary predicate and binds nothing.
\<close>

theorem minSalary_zero_counterexample:
  "minSalary \<lparr>title = None, minSalary = Some 0, hasEquity = None\<rparr> = Some 0 \<and>
   Job_build \<lparr>title = None, minSalary = Some 0, hasEquity = None\<rparr> =
     \<lparr>valueArr = [], middlePartOfQueryArr = []\<rparr> \<and>
   bound_value (Job_build \<lparr>title = None, minSalary = Some 0, hasEquity = None\<rparr>)
     ''salary > $1'' = None"
  using placeholder_index_small(1) [of "''salary > ''"]
  by (simp add: Job_build_closed truthy_string_def truthy_number_def bound_value_def)



section \<open>The zero-criteria case\<close>

text \<open>
  C2 (amended). The filter methods have no guard for the empty-fragment case: the
  statement that \<open>Company.filter\<close> or \<open>Job.filter\<close> composes has a dangling \<open>WHERE\<close>
  exactly when no criterion is truthy (with zero criteria the text is the first part, two
  blanks and the last part). The guard is in the caller: \<open>GET /jobs\<close> calls \<open>Job.filter\<close>
  only when one of title, minSalary, hasEquity is truthy and otherwise runs \<open>findAll\<close>,
  whose statement has no \<open>WHERE\<close>; so the statement that the route issues never has a
  dangling \<open>WHERE\<close>.
\<close>

theorem zero_criteria_guard_in_route:
  "dangling_where (sql_words (Company_query_text cq)) =
     (\<not> truthy_string (name cq) \<and> \<not> truthy_number (minEmployees cq) \<and>
      \<not> truthy_number (maxEmployees cq)) \<and>
   dangling_where (sql_words (Job_query_text jq)) =
     (\<not> truthy_string (title jq) \<and> \<not> truthy_number (minSalary jq) \<and>
      \<not> truthy_boolean (hasEquity jq)) \<and>
   (\<not> truthy_string (name cq) \<and> \<not> truthy_number (minEmployees cq) \<and>
    \<not> truthy_number (maxEmployees cq) \<longrightarrow>
      Company_query_text cq = company_firstPartOfQuery @ ''  '' @ company_lastPartOfQuery) \<and>
   (\<not> truthy_string (title jq) \<and> \<not> truthy_number (minSalary jq) \<and>
    \<not> truthy_boolean (hasEquity jq) \<longrightarrow>
      Job_query_text jq = job_firstPartOfQuery @ ''  '' @ job_lastPartOfQuery \<and>
      jobs_get jq d = Job_findAll d) \<and>
   (truthy_string (title jq) \<or> truthy_number (minSalary jq) \<or> truthy_boolean (hasEquity jq) \<longrightarrow>
      jobs_get jq d = Job_filter jq d) \<and>
   \<not> dangling_where (sql_words job_findAll_text) \<and>
   \<not> dangling_where (sql_words (fst (last (issued (snd (jobs_get jq d))))))"
proof -
  have c0: "Company_query_text cq = company_firstPartOfQuery @ ''  '' @ company_lastPartOfQuery"
    if "\<not> truthy_string (name cq) \<and> \<not> truthy_number (minEmployees cq) \<and>
        \<not> truthy_number (maxEmployees cq)"
    using that by (simp add: Company_query_text_def compose_query_def Company_build_closed)
  have j0: "Job_query_text jq = job_firstPartOfQuery @ ''  '' @ job_lastPartOfQuery \<and>
            jobs_get jq d = Job_findAll d"
    if "\<not> truthy_string (title jq) \<and> \<not> truthy_number (minSalary jq) \<and>
        \<not> truthy_boolean (hasEquity jq)"
    using that
    by (simp add: Job_query_text_def compose_query_def Job_build_closed truthy_boolean_iff
          jobs_get_def)
  have j1: "jobs_get jq d = Job_filter jq d"
    if "truthy_string (title jq) \<or> truthy_number (minSalary jq) \<or> truthy_boolean (hasEquity jq)"
    using that by (simp add: jobs_get_def)
  have route: "\<not> dangling_where (sql_words (fst (last (issued (snd (jobs_get jq d))))))"
  proof (cases "truthy_string (title jq) \<or> truthy_number (minSalary jq) \<or>
                 truthy_boolean (hasEquity jq)")
    case True
    then have "fst (last (issued (snd (jobs_get jq d)))) = Job_query_text jq"
      by (simp add: jobs_get_def issued_Job_filter)
    with True show ?thesis
      by (simp add: dangling_Job_query_text)
  next
    case False
    then have "fst (last (issued (snd (jobs_get jq d)))) = job_findAll_text"
      by (simp add: jobs_get_def issued_Job_findAll)
    then show ?thesis
      by (simp add: not_dangling_job_findAll_text)
  qed
  from c0 j0 j1 route dangling_Company_query_text [of cq] dangling_Job_query_text [of jq]
    not_dangling_job_findAll_text
  show ?thesis by blast
qed

text \<open>
  The route test "equity set to false" without the other criteria, and a search by title.
\<close>

theorem zero_criteria_guard_in_route_witness:
  "jobs_get \<lparr>title = None, minSalary = None, hasEquity = Some False\<rparr>
       \<lparr>respond = (\<lambda>text vs. Inr []), issued = []\<rparr> =
     Job_findAll \<lparr>respond = (\<lambda>text vs. Inr []), issued = []\<rparr> \<and>
   dangling_where (sql_words (Job_query_text \<lparr>title = None, minSalary = None, hasEquity = Some False\<rparr>)) \<and>
   dangling_where (sql_words (Company_query_text \<lparr>name = Some [], minEmployees = Some 0, maxEmployees = None\<rparr>)) \<and>
   jobs_get \<lparr>title = Some ''j1'', minSalary = None, hasEquity = None\<rparr>
       \<lparr>respond = (\<lambda>text vs. Inr []), issued = []\<rparr> =
     Job_filter \<lparr>title = Some ''j1'', minSalary = None, hasEquity = None\<rparr>
       \<lparr>respond = (\<lambda>text vs. Inr []), issued = []\<rparr> \<and>
   \<not> dangling_where (sql_words (Job_query_text \<lparr>title = Some ''j1'', minSalary = None, hasEquity = None\<rparr>))"
  using
    zero_criteria_guard_in_route
      [of "\<lparr>name = Some [], minEmployees = Some 0, maxEmployees = None\<rparr>"
          "\<lparr>title = None, minSalary = None, hasEquity = Some False\<rparr>"
          "\<lparr>respond = (\<lambda>text vs. Inr []), issued = []\<rparr>"]
    zero_criteria_guard_in_route
      [of "\<lparr>name = Some [], minEmployees = Some 0, maxEmployees = None\<rparr>"
          "\<lparr>title = Some ''j1'', minSalary = None, hasEquity = None\<rparr>"
          "\<lparr>respond = (\<lambda>text vs. Inr []), issued = []\<rparr>"]
  by (auto simp: truthy_string_def truthy_number_def truthy_boolean_def)

text \<open>
  The claim as first stated: with zero criteria the composed statement has no dangling
  \<open>WHERE\<close>. Both methods, called with no criterion, compose one.
\<close>

theorem zero_criteria_dangling_where_counterexample:
  \<open>Job_query_text \<lparr>title = None, minSalary = None, hasEquity = None\<rparr> =
     ''SELECT id, title, salary, equity, company_handle AS "companyHandle" FROM jobs WHERE  ORDER BY title'' \<and>
   dangling_where (sql_words (Job_query_text \<lparr>title = None, minSalary = None, hasEquity = None\<rparr>)) \<and>
   dangling_where
     (sql_words (Company_query_text \<lparr>name = None, minEmployees = None, maxEmployees = None\<rparr>))\<close>
proof -
  have composed: \<open>Job_query_text \<lparr>title = None, minSalary = None, hasEquity = None\<rparr> =
     ''SELECT id, title, salary, equity, company_handle AS "companyHandle" FROM jobs WHERE  ORDER BY title''\<close>
    by (simp add: Job_query_text_def compose_query_def Job_build_closed truthy_string_def
          truthy_number_def job_firstPartOfQuery_def job_lastPartOfQuery_def)
  have job: "dangling_where (sql_words (Job_query_text \<lparr>title = None, minSalary = None, hasEquity = None\<rparr>))"
    by (simp add: dangling_Job_query_text truthy_string_def truthy_number_def truthy_boolean_def)
  have company: "dangling_where
     (sql_words (Company_query_text \<lparr>name = None, minEmployees = None, maxEmployees = None\<rparr>))"
    by (simp add: dangling_Company_query_text truthy_string_def truthy_number_def)
  from composed job company show ?thesis by blast
qed

section \<open>Placeholder and value alignment\<close>

text \<open>
  C1 (amended). For a non-empty payload and any field-name map, \<open>sqlForPartialUpdate\<close>
  returns the payload's values in the order in which \<open>Object.keys\<close> enumerates the
  payload: as many values as the payload has keys, the value at every index being the
  value of the key at that index, the whole a rearrangement of the payload that is the
  insertion order itself when no key is an array index. It emits one fragment per key,
  and the fragment of the key at index \<open>i\<close> ends in placeholder \<open>i + 1\<close>. When no
  resolved column name holds a double quote, the placeholders that occur in the
  \<open>setCols\<close> text are exactly \<open>$1, ..., $n\<close> for \<open>n\<close> keys, each once and in ascending
  order, so that \<open>$N\<close> refers to position \<open>N\<close> of the values. The company and the job
  filter builders keep the same alignment: a criterion that binds a value appends it
  and emits a fragment whose placeholder is the length of the value list just after the
  append; the placeholders that occur in the composed statement are
  \<open>$1, ..., $(length valueArr)\<close>, and the value list holds one value per truthy
  criterion that binds one.
\<close>

theorem placeholders_match_values:
  assumes "dataToUpdate \<noteq> []"
  shows "sqlForPartialUpdate dataToUpdate jsToSql =
           Inr \<lparr>setCols = join '', '' (cols (Object_keys dataToUpdate) jsToSql),
                values = Object_values dataToUpdate\<rparr> \<and>
         length (Object_values dataToUpdate) = length dataToUpdate \<and>
         zip (Object_keys dataToUpdate) (Object_values dataToUpdate) =
           own_properties dataToUpdate \<and>
         mset (own_properties dataToUpdate) = mset dataToUpdate \<and>
         ((\<forall>k \<in> set (map fst dataToUpdate). array_index k = None) \<longrightarrow>
            Object_keys dataToUpdate = map fst dataToUpdate \<and>
            Object_values dataToUpdate = map snd dataToUpdate) \<and>
         length (cols (Object_keys dataToUpdate) jsToSql) = length dataToUpdate \<and>
         map placeholder_index (cols (Object_keys dataToUpdate) jsToSql) =
           map Some [1..<Suc (length dataToUpdate)] \<and>
         (\<forall>i<length dataToUpdate.
            cols (Object_keys dataToUpdate) jsToSql ! i =
              col_fragment jsToSql (Object_keys dataToUpdate ! i) i \<and>
            placeholder_index (cols (Object_keys dataToUpdate) jsToSql ! i) = Some (i + 1) \<and>
            (Object_keys dataToUpdate ! i, Object_values dataToUpdate ! i) =
              own_properties dataToUpdate ! i) \<and>
         ((\<forall>k \<in> set (Object_keys dataToUpdate).
              CHR 0x22 \<notin> set (js_or (js_lookup jsToSql k) k)) \<longrightarrow>
            sql_placeholders (join '', '' (cols (Object_keys dataToUpdate) jsToSql)) =
              [1..<Suc (length dataToUpdate)]) \<and>
         aligned (Company_build cq) \<and>
         sql_placeholders (Company_query_text cq) =
           [1..<Suc (length (valueArr (Company_build cq)))] \<and>
         length (valueArr (Company_build cq)) =
           (if truthy_string (name cq) then 1 else 0) +
           (if truthy_number (minEmployees cq) then 1 else 0) +
           (if truthy_number (maxEmployees cq) then 1 else 0) \<and>
         aligned (Job_build jq) \<and>
         sql_placeholders (Job_query_text jq) =
           [1..<Suc (length (valueArr (Job_build jq)))] \<and>
         length (valueArr (Job_build jq)) =
           (if truthy_string (title jq) then 1 else 0) +
           (if truthy_number (minSalary jq) then 1 else 0) \<and>
         valueArr (push_criterion v (pre @ ''$'') b) = valueArr b @ [v] \<and>
         placeholder_index (last (middlePartOfQueryArr (push_criterion v (pre @ ''$'') b))) =
           Some (length (valueArr (push_criterion v (pre @ ''$'') b)))"
proof -
  have len: "length (Object_keys dataToUpdate) = length dataToUpdate"
    by (rule length_Object_keys)
  have 1: "sqlForPartialUpdate dataToUpdate jsToSql =
           Inr \<lparr>setCols = join '', '' (cols (Object_keys dataToUpdate) jsToSql),
                values = Object_values dataToUpdate\<rparr>"
    using assms by (simp add: sqlForPartialUpdate_def Let_def Object_keys_Nil_iff)
  have 2: "length (Object_values dataToUpdate) = length dataToUpdate"
    by (rule length_Object_values)
  have 3: "zip (Object_keys dataToUpdate) (Object_values dataToUpdate) =
           own_properties dataToUpdate"
    by (rule zip_Object_keys_values)
  have 4: "mset (own_properties dataToUpdate) = mset dataToUpdate"
    by (rule mset_own_properties)
  have 5: "Object_keys dataToUpdate = map fst dataToUpdate \<and>
           Object_values dataToUpdate = map snd dataToUpdate"
    if "\<forall>k \<in> set (map fst dataToUpdate). array_index k = None"
    using own_properties_no_index [OF that] by (simp add: Object_keys_def Object_values_def)
  have 6: "length (cols (Object_keys dataToUpdate) jsToSql) = length dataToUpdate"
    by (simp add: length_cols len)
  have 7: "map placeholder_index (cols (Object_keys dataToUpdate) jsToSql) =
           map Some [1..<Suc (length dataToUpdate)]"
    using placeholder_index_cols [of "Object_keys dataToUpdate" jsToSql] by (simp only: len)
  have 8: "\<forall>i<length dataToUpdate.
            cols (Object_keys dataToUpdate) jsToSql ! i =
              col_fragment jsToSql (Object_keys dataToUpdate ! i) i \<and>
            placeholder_index (cols (Object_keys dataToUpdate) jsToSql ! i) = Some (i + 1) \<and>
            (Object_keys dataToUpdate ! i, Object_values dataToUpdate ! i) =
              own_properties dataToUpdate ! i"
    by (simp add: nth_cols len placeholder_index_col_fragment)
       (simp add: Object_keys_def Object_values_def length_own_properties)
  have 9: "sql_placeholders (join '', '' (cols (Object_keys dataToUpdate) jsToSql)) =
              [1..<Suc (length dataToUpdate)]"
    if "\<forall>k \<in> set (Object_keys dataToUpdate). CHR 0x22 \<notin> set (js_or (js_lookup jsToSql k) k)"
    using sql_placeholders_cols [OF that] by (simp only: len)
  have 10: "valueArr (push_criterion v (pre @ ''$'') b) = valueArr b @ [v]"
    by (simp add: push_criterion_def Let_def)
  have 11: "placeholder_index (last (middlePartOfQueryArr (push_criterion v (pre @ ''$'') b))) =
           Some (length (valueArr (push_criterion v (pre @ ''$'') b)))"
    using placeholder_index_emitted [of pre "Suc (length (valueArr b))"]
    by (simp add: push_criterion_def Let_def)
  from 1 2 3 4 5 6 7 8 9 10 11
    aligned_Company_build [of cq] aligned_Job_build [of jq]
    sql_placeholders_Company_query_text [of cq] sql_placeholders_Job_query_text [of jq]
    length_valueArr_Company_build [of cq] length_valueArr_Job_build [of jq]
  show ?thesis by blast
qed

text \<open>The documented example of the helper, and one query with every criterion.\<close>

theorem placeholders_match_values_witness:
  \<open>[(''firstName'', JStr ''Aliya''), (''age'', JNum 32)] \<noteq> [] \<and>
   sqlForPartialUpdate [(''firstName'', JStr ''Aliya''), (''age'', JNum 32)]
       [''firstName'' \<mapsto> ''first_name''] =
     Inr \<lparr>setCols = ''"first_name"=$1, "age"=$2'', values = [JStr ''Aliya'', JNum 32]\<rparr> \<and>
   sql_placeholders ''"first_name"=$1, "age"=$2'' = [1, 2] \<and>
   Company_build \<lparr>name = Some ''tech'', minEmployees = Some 5, maxEmployees = Some 12\<rparr> =
     \<lparr>valueArr = [JStr ''%tech%'', JNum 5, JNum 12],
      middlePartOfQueryArr =
        [''name ILIKE $1'', ''num_employees >= $2'', ''num_employees <= $3'']\<rparr> \<and>
   sql_placeholders
       (Company_query_text \<lparr>name = Some ''tech'', minEmployees = Some 5, maxEmployees = Some 12\<rparr>) =
     [1, 2, 3] \<and>
   sql_placeholders
       (Job_query_text \<lparr>title = Some ''j'', minSalary = Some 40000, hasEquity = Some True\<rparr>) =
     [1, 2]\<close>
proof -
  have keys: "Object_keys [(''firstName'', JStr ''Aliya''), (''age'', JNum 32)] = [''firstName'', ''age'']"
    by (simp add: Object_keys_def own_properties_def array_index_not_digit digit_of_char_def)
  have vals: "Object_values [(''firstName'', JStr ''Aliya''), (''age'', JNum 32)] = [JStr ''Aliya'', JNum 32]"
    by (simp add: Object_values_def own_properties_def array_index_not_digit digit_of_char_def)
  have frags: \<open>join '', '' (cols [''firstName'', ''age''] [''firstName'' \<mapsto> ''first_name'']) =
               ''"first_name"=$1, "age"=$2''\<close>
    by (simp add: cols_def col_fragment_def js_or_def js_lookup_def Object_prototype_def
          string_of_nat_small upt_rec)
  have noquote: "\<forall>k \<in> set [''firstName'', ''age''].
                   CHR 0x22 \<notin> set (js_or (js_lookup [''firstName'' \<mapsto> ''first_name''] k) k)"
    by (simp add: js_or_def js_lookup_def Object_prototype_def)
  have cb: "Company_build \<lparr>name = Some ''tech'', minEmployees = Some 5, maxEmployees = Some 12\<rparr> =
     \<lparr>valueArr = [JStr ''%tech%'', JNum 5, JNum 12],
      middlePartOfQueryArr =
        [''name ILIKE $1'', ''num_employees >= $2'', ''num_employees <= $3'']\<rparr>"
    by (simp add: Company_build_closed truthy_string_def truthy_number_def)
  have jb: "valueArr (Job_build \<lparr>title = Some ''j'', minSalary = Some 40000, hasEquity = Some True\<rparr>) =
              [JStr ''%j%'', JNum 40000]"
    by (simp add: Job_build_closed)
  from placeholders_match_values
    [of "[(''firstName'', JStr ''Aliya''), (''age'', JNum 32)]"
        "[''firstName'' \<mapsto> ''first_name'']"
        "\<lparr>name = Some ''tech'', minEmployees = Some 5, maxEmployees = Some 12\<rparr>"
        "\<lparr>title = Some ''j'', minSalary = Some 40000, hasEquity = Some True\<rparr>"
        JNull "''name ILIKE ''" "\<lparr>valueArr = [], middlePartOfQueryArr = []\<rparr>"]
    noquote
  show ?thesis
    by (simp add: keys vals frags cb jb upt_rec)
qed

text \<open>
  The claim as first stated: the values come in insertion order, and the placeholders
  occurring in \<open>setCols\<close> are exactly \<open>$1, ..., $n\<close>. For the payload \<open>{b: "x", 1: "y"}\<close> the
  values come with the array index first; for the one-key payload whose key is
  \<open>x"=$2, "y\<close> the text holds the placeholders \<open>$2\<close> and \<open>$1\<close>.
\<close>

theorem values_order_and_quoted_key_counterexample:
  \<open>sqlForPartialUpdate [(''b'', JStr ''x''), (''1'', JStr ''y'')] Map.empty =
     Inr \<lparr>setCols = ''"1"=$1, "b"=$2'', values = [JStr ''y'', JStr ''x'']\<rparr> \<and>
   map snd [(''b'', JStr ''x''), (''1'', JStr ''y'')] = [JStr ''x'', JStr ''y''] \<and>
   sqlForPartialUpdate [(''x"=$2, "y'', JNum 1)] Map.empty =
     Inr \<lparr>setCols = ''"x"=$2, "y"=$1'', values = [JNum 1]\<rparr> \<and>
   sql_placeholders ''"x"=$2, "y"=$1'' = [2, 1]\<close>
proof -
  have own1: "own_properties [(''b'', JStr ''x''), (''1'', JStr ''y'')] =
                [(''1'', JStr ''y''), (''b'', JStr ''x'')]"
    by (simp add: own_properties_def array_index_not_digit array_index_small digit_of_char_def)
  have own2: \<open>own_properties [(''x"=$2, "y'', JNum 1)] = [(''x"=$2, "y'', JNum 1)]\<close>
    by (simp add: own_properties_def array_index_not_digit digit_of_char_def)
  have a: \<open>sqlForPartialUpdate [(''b'', JStr ''x''), (''1'', JStr ''y'')] Map.empty =
     Inr \<lparr>setCols = ''"1"=$1, "b"=$2'', values = [JStr ''y'', JStr ''x'']\<rparr>\<close>
    by (simp add: sqlForPartialUpdate_def Object_keys_def Object_values_def own1 cols_def
          col_fragment_def js_or_def js_lookup_def Object_prototype_def string_of_nat_small
          upt_rec)
  have b: \<open>sqlForPartialUpdate [(''x"=$2, "y'', JNum 1)] Map.empty =
     Inr \<lparr>setCols = ''"x"=$2, "y"=$1'', values = [JNum 1]\<rparr>\<close>
    by (simp add: sqlForPartialUpdate_def Object_keys_def Object_values_def own2 cols_def
          col_fragment_def js_or_def js_lookup_def Object_prototype_def string_of_nat_small)
  have c: \<open>sql_placeholders ''"x"=$2, "y"=$1'' = [2, 1]\<close>
    by (simp add: sql_placeholders_def plain_next_def digit_of_char_def emit_def)
  from a b c show ?thesis by simp
qed

section \<open>Column translation\<close>

text \<open>
  C9 (amended). For every non-empty payload and every map, the fragments are joined with
  a comma and a blank, and the fragment for the key \<open>k\<close> at 1-based position \<open>i\<close> of the
  \<open>Object.keys\<close> enumeration (the insertion position when no key of the payload is an
  array index) is the double-quoted physical name, \<open>=$\<close> and \<open>i\<close>, for every key that
  is present in the map or is not the name of a property inherited from
  \<open>Object.prototype\<close>; the physical name is the map's entry for \<open>k\<close> when \<open>k\<close> is present
  in the map with a non-empty name, and \<open>k\<close> itself when \<open>k\<close> is absent from the map or
  mapped to the empty string. So for a payload of such keys without array indices the
  result is the specification's \<open>setCols\<close> for the map without its empty-named entries,
  and the specification's \<open>setCols\<close> for the map itself when no key of the payload has
  an empty-named entry. The two examples of the specification hold.
\<close>

theorem column_translation_with_fallback:
  assumes "dataToUpdate \<noteq> []"
  shows \<open>sqlForPartialUpdate dataToUpdate jsToSql =
           Inr \<lparr>setCols = join '', '' (cols (Object_keys dataToUpdate) jsToSql),
                values = Object_values dataToUpdate\<rparr> \<and>
         (\<forall>i < length dataToUpdate.
            jsToSql (Object_keys dataToUpdate ! i) \<noteq> None \<or>
            Object_prototype (Object_keys dataToUpdate ! i) = None \<longrightarrow>
            cols (Object_keys dataToUpdate) jsToSql ! i =
              ''"'' @
              (case jsToSql (Object_keys dataToUpdate ! i) of
                 None \<Rightarrow> Object_keys dataToUpdate ! i
               | Some physical \<Rightarrow>
                   if physical = [] then Object_keys dataToUpdate ! i else physical) @
              ''"=$'' @ string_of_nat (i + 1)) \<and>
         ((\<forall>k \<in> set (map fst dataToUpdate). array_index k = None) \<longrightarrow>
            Object_keys dataToUpdate = map fst dataToUpdate) \<and>
         ((\<forall>k \<in> set (map fst dataToUpdate).
              array_index k = None \<and> (jsToSql k \<noteq> None \<or> Object_prototype k = None)) \<longrightarrow>
            sqlForPartialUpdate dataToUpdate jsToSql =
              Inr \<lparr>setCols = spec_setCols dataToUpdate (jsToSql |` {k. jsToSql k \<noteq> Some []}),
                   values = map snd dataToUpdate\<rparr>) \<and>
         ((\<forall>k \<in> set (map fst dataToUpdate).
              array_index k = None \<and> jsToSql k \<noteq> Some [] \<and>
              (jsToSql k \<noteq> None \<or> Object_prototype k = None)) \<longrightarrow>
            sqlForPartialUpdate dataToUpdate jsToSql =
              Inr \<lparr>setCols = spec_setCols dataToUpdate jsToSql, values = map snd dataToUpdate\<rparr>) \<and>
         sqlForPartialUpdate [(''firstName'', JStr ''x'')] [''firstName'' \<mapsto> ''first_name''] =
           Inr \<lparr>setCols = ''"first_name"=$1'', values = [JStr ''x'']\<rparr> \<and>
         sqlForPartialUpdate [(''age'', JNum 5)] [''firstName'' \<mapsto> ''first_name''] =
           Inr \<lparr>setCols = ''"age"=$1'', values = [JNum 5]\<rparr>\<close>
proof -
  let ?M = "jsToSql |` {k. jsToSql k \<noteq> Some []}"
  have len: "length (Object_keys dataToUpdate) = length dataToUpdate"
    by (rule length_Object_keys)
  have 1: "sqlForPartialUpdate dataToUpdate jsToSql =
           Inr \<lparr>setCols = join '', '' (cols (Object_keys dataToUpdate) jsToSql),
                values = Object_values dataToUpdate\<rparr>"
    using assms by (simp add: sqlForPartialUpdate_def Let_def Object_keys_Nil_iff)
  have 2: \<open>\<forall>i < length dataToUpdate.
            jsToSql (Object_keys dataToUpdate ! i) \<noteq> None \<or>
            Object_prototype (Object_keys dataToUpdate ! i) = None \<longrightarrow>
            cols (Object_keys dataToUpdate) jsToSql ! i =
              ''"'' @
              (case jsToSql (Object_keys dataToUpdate ! i) of
                 None \<Rightarrow> Object_keys dataToUpdate ! i
               | Some physical \<Rightarrow>
                   if physical = [] then Object_keys dataToUpdate ! i else physical) @
              ''"=$'' @ string_of_nat (i + 1)\<close>
    by (auto simp: len nth_cols col_fragment_def js_or_def js_lookup_def split: option.splits)
  have 3: "Object_keys dataToUpdate = map fst dataToUpdate \<and>
           Object_values dataToUpdate = map snd dataToUpdate"
    if "\<forall>k \<in> set (map fst dataToUpdate). array_index k = None"
    using own_properties_no_index [OF that] by (simp add: Object_keys_def Object_values_def)
  have 4: "sqlForPartialUpdate dataToUpdate jsToSql =
              Inr \<lparr>setCols = spec_setCols dataToUpdate ?M, values = map snd dataToUpdate\<rparr>"
    if h: "\<forall>k \<in> set (map fst dataToUpdate).
              array_index k = None \<and> (jsToSql k \<noteq> None \<or> Object_prototype k = None)"
  proof -
    from h have noidx: "\<forall>k \<in> set (map fst dataToUpdate). array_index k = None"
      by simp
    from h have ok: "\<forall>k \<in> set (map fst dataToUpdate). jsToSql k \<noteq> None \<or> Object_prototype k = None"
      by simp
    have "cols (map fst dataToUpdate) jsToSql =
            map (\<lambda>(k, position). spec_fragment ?M k position)
              (zip (map fst dataToUpdate) [Suc 0..<Suc (length (map fst dataToUpdate))])"
      using ok by (rule cols_spec)
    then have "join '', '' (cols (map fst dataToUpdate) jsToSql) = spec_setCols dataToUpdate ?M"
      by (simp add: spec_setCols_def del: upt_Suc)
    with 1 3 [OF noidx] show ?thesis
      by simp
  qed
  have 5: "sqlForPartialUpdate dataToUpdate jsToSql =
              Inr \<lparr>setCols = spec_setCols dataToUpdate jsToSql, values = map snd dataToUpdate\<rparr>"
    if h: "\<forall>k \<in> set (map fst dataToUpdate).
              array_index k = None \<and> jsToSql k \<noteq> Some [] \<and>
              (jsToSql k \<noteq> None \<or> Object_prototype k = None)"
  proof -
    from h have a: "\<forall>k \<in> set (map fst dataToUpdate).
              array_index k = None \<and> (jsToSql k \<noteq> None \<or> Object_prototype k = None)"
      by simp
    from h have b: "\<forall>k \<in> set (map fst dataToUpdate). jsToSql k \<noteq> Some []"
      by simp
    from 4 [OF a] spec_setCols_restrict [OF b] show ?thesis
      by simp
  qed
  have keys1: "Object_keys [(''firstName'', JStr ''x'')] = [''firstName'']"
              "Object_values [(''firstName'', JStr ''x'')] = [JStr ''x'']"
              "Object_keys [(''age'', JNum 5)] = [''age'']"
              "Object_values [(''age'', JNum 5)] = [JNum 5]"
    by (simp_all add: Object_keys_def Object_values_def own_properties_def
          array_index_not_digit digit_of_char_def)
  have 6: \<open>sqlForPartialUpdate [(''firstName'', JStr ''x'')] [''firstName'' \<mapsto> ''first_name''] =
           Inr \<lparr>setCols = ''"first_name"=$1'', values = [JStr ''x'']\<rparr>\<close>
    by (simp add: sqlForPartialUpdate_def keys1 cols_def col_fragment_def js_or_def js_lookup_def
          string_of_nat_small)
  have 7: \<open>sqlForPartialUpdate [(''age'', JNum 5)] [''firstName'' \<mapsto> ''first_name''] =
           Inr \<lparr>setCols = ''"age"=$1'', values = [JNum 5]\<rparr>\<close>
    by (simp add: sqlForPartialUpdate_def keys1 cols_def col_fragment_def js_or_def js_lookup_def
          Object_prototype_def string_of_nat_small)
  from 1 2 3 4 5 6 7 show ?thesis by blast
qed

text \<open>The documented example of the helper: one mapped key and one unmapped key.\<close>

theorem column_translation_with_fallback_witness:
  \<open>[(''firstName'', JStr ''Aliya''), (''age'', JNum 32)] \<noteq> [] \<and>
   sqlForPartialUpdate [(''firstName'', JStr ''Aliya''), (''age'', JNum 32)]
       [''firstName'' \<mapsto> ''first_name''] =
     Inr \<lparr>setCols = spec_setCols [(''firstName'', JStr ''Aliya''), (''age'', JNum 32)]
                       [''firstName'' \<mapsto> ''first_name''],
          values = [JStr ''Aliya'', JNum 32]\<rparr> \<and>
   spec_setCols [(''firstName'', JStr ''Aliya''), (''age'', JNum 32)]
       [''firstName'' \<mapsto> ''first_name''] = ''"first_name"=$1, "age"=$2''\<close>
proof -
  have h: "\<forall>k \<in> set (map fst [(''firstName'', JStr ''Aliya''), (''age'', JNum 32)]).
              array_index k = None \<and> [''firstName'' \<mapsto> ''first_name''] k \<noteq> Some [] \<and>
              ([''firstName'' \<mapsto> ''first_name''] k \<noteq> None \<or> Object_prototype k = None)"
    by (simp add: array_index_not_digit digit_of_char_def Object_prototype_def)
  have s: \<open>spec_setCols [(''firstName'', JStr ''Aliya''), (''age'', JNum 32)]
       [''firstName'' \<mapsto> ''first_name''] = ''"first_name"=$1, "age"=$2''\<close>
    by (simp add: spec_setCols_def spec_fragment_def spec_physical_name_def
          string_of_nat_small upt_rec)
  have ne: "[(''firstName'', JStr ''Aliya''), (''age'', JNum 32)] \<noteq> []"
    by simp
  note imp = column_translation_with_fallback
    [OF ne, of "[''firstName'' \<mapsto> ''first_name'']",
     THEN conjunct2, THEN conjunct2, THEN conjunct2, THEN conjunct2, THEN conjunct1]
  from imp h have
    "sqlForPartialUpdate [(''firstName'', JStr ''Aliya''), (''age'', JNum 32)]
       [''firstName'' \<mapsto> ''first_name''] =
     Inr \<lparr>setCols = spec_setCols [(''firstName'', JStr ''Aliya''), (''age'', JNum 32)]
                       [''firstName'' \<mapsto> ''first_name''],
          values = map snd [(''firstName'', JStr ''Aliya''), (''age'', JNum 32)]\<rparr>"
    by (rule mp)
  with s show ?thesis
    by simp
qed

text \<open>
  The claim as first stated fails in three places. The key \<open>constructor\<close> is absent from
  the map \<open>{}\<close>, yet the column name is the text of the inherited property, not the key.
  In the payload \<open>{b: "x", 1: "y"}\<close> the key \<open>b\<close> is inserted first, yet its fragment
  carries \<open>$2\<close>. And for the map \<open>{firstName: ""}\<close> the code falls back to the key, where
  the stated rule gives the empty identifier.
\<close>

theorem inherited_name_order_and_empty_entry_counterexample:
  \<open>sqlForPartialUpdate [(''constructor'', JNum 1)] Map.empty =
     Inr \<lparr>setCols = ''"function Object() { [native code] }"=$1'', values = [JNum 1]\<rparr> \<and>
   spec_setCols [(''constructor'', JNum 1)] Map.empty = ''"constructor"=$1'' \<and>
   sqlForPartialUpdate [(''b'', JStr ''x''), (''1'', JStr ''y'')] Map.empty =
     Inr \<lparr>setCols = ''"1"=$1, "b"=$2'', values = [JStr ''y'', JStr ''x'']\<rparr> \<and>
   spec_setCols [(''b'', JStr ''x''), (''1'', JStr ''y'')] Map.empty = ''"b"=$1, "1"=$2'' \<and>
   sqlForPartialUpdate [(''firstName'', JStr ''x'')] [''firstName'' \<mapsto> []] =
     Inr \<lparr>setCols = ''"firstName"=$1'', values = [JStr ''x'']\<rparr> \<and>
   spec_setCols [(''firstName'', JStr ''x'')] [''firstName'' \<mapsto> []] = ''""=$1''\<close>
proof -
  have own: "own_properties [(''constructor'', JNum 1)] = [(''constructor'', JNum 1)]"
            "own_properties [(''b'', JStr ''x''), (''1'', JStr ''y'')] =
               [(''1'', JStr ''y''), (''b'', JStr ''x'')]"
            "own_properties [(''firstName'', JStr ''x'')] = [(''firstName'', JStr ''x'')]"
    by (simp_all add: own_properties_def array_index_not_digit array_index_small
          digit_of_char_def)
  have a: \<open>sqlForPartialUpdate [(''constructor'', JNum 1)] Map.empty =
     Inr \<lparr>setCols = ''"function Object() { [native code] }"=$1'', values = [JNum 1]\<rparr>\<close>
    by (simp add: sqlForPartialUpdate_def Object_keys_def Object_values_def own cols_def
          col_fragment_def js_or_def js_lookup_def Object_prototype_def string_of_nat_small)
  have b: \<open>sqlForPartialUpdate [(''b'', JStr ''x''), (''1'', JStr ''y'')] Map.empty =
     Inr \<lparr>setCols = ''"1"=$1, "b"=$2'', values = [JStr ''y'', JStr ''x'']\<rparr>\<close>
    by (simp add: sqlForPartialUpdate_def Object_keys_def Object_values_def own cols_def
          col_fragment_def js_or_def js_lookup_def Object_prototype_def string_of_nat_small
          upt_rec)
  have c: \<open>sqlForPartialUpdate [(''firstName'', JStr ''x'')] [''firstName'' \<mapsto> []] =
     Inr \<lparr>setCols = ''"firstName"=$1'', values = [JStr ''x'']\<rparr>\<close>
    by (simp add: sqlForPartialUpdate_def Object_keys_def Object_values_def own cols_def
          col_fragment_def js_or_def js_lookup_def string_of_nat_small)
  have d: \<open>spec_setCols [(''constructor'', JNum 1)] Map.empty = ''"constructor"=$1''\<close>
          \<open>spec_setCols [(''b'', JStr ''x''), (''1'', JStr ''y'')] Map.empty = ''"b"=$1, "1"=$2''\<close>
          \<open>spec_setCols [(''firstName'', JStr ''x'')] [''firstName'' \<mapsto> []] = ''""=$1''\<close>
    by (simp_all add: spec_setCols_def spec_fragment_def spec_physical_name_def
          string_of_nat_small upt_rec)
  from a b c d show ?thesis by simp
qed

end
